theory Spec2Isabelle
  imports Complex_Main "HOL-Library.Monad_Syntax"
begin

section \<open>The preprocessor's table of definitions\<close>

text \<open>
  \<^verbatim>\<open>script_macros_common.hpp\<close> is a header of preprocessor macros. Including it
  does two things: its \<^verbatim>\<open>#ifndef\<close>/\<^verbatim>\<open>#ifdef\<close> blocks complete the
  table of object-like definitions that the including file has set up, and its
  \<^verbatim>\<open>#define\<close> lines introduce the macros.

  The table is a record with one field per name the header tests or reads. A name with a
  replacement text is \<open>Some text\<close>, an undefined name is \<open>None\<close>; the flags that are only
  ever tested with \<^verbatim>\<open>#ifdef\<close> are booleans, and a flag that is defined has the empty
  replacement text, as in lines 120-131 of the header. The text recorded for a name is the
  text that the name finally stands for. The including file is taken to define no other
  name that occurs in the header or in an argument of one of its macros.
\<close>

type_synonym src = string

record macro_table =
  def_PREFIX :: "src option"
  def_COMPONENT :: "src option"
  def_MAINPREFIX :: "src option"
  def_SUBPREFIX :: "src option"
  def_MAINLOGIC :: "src option"
  def_VERSION :: "src option"
  def_VERSION_AR :: "src option"
  def_VERSION_CONFIG :: "src option"
  def_DEBUG_SETTINGS :: "src option"
  def_THIS_FILE :: "src option"
  def_MODULAR :: bool
  def_DEBUG_MODE_FULL :: bool
  def_DEBUG_MODE_NORMAL :: bool
  def_DEBUG_MODE_MINIMAL :: bool

text \<open>
  An object-like macro name in a replacement text is replaced by its definition when it
  has one and stays as it is written otherwise.
\<close>

fun expand_name :: "src \<Rightarrow> src option \<Rightarrow> src" where
  "expand_name name None = name"
| "expand_name name (Some body) = body"

definition PREFIX :: "macro_table \<Rightarrow> src" where
  "PREFIX e = expand_name ''PREFIX'' (def_PREFIX e)"

definition COMPONENT :: "macro_table \<Rightarrow> src" where
  "COMPONENT e = expand_name ''COMPONENT'' (def_COMPONENT e)"

definition MAINPREFIX :: "macro_table \<Rightarrow> src" where
  "MAINPREFIX e = expand_name ''MAINPREFIX'' (def_MAINPREFIX e)"

definition SUBPREFIX :: "macro_table \<Rightarrow> src" where
  "SUBPREFIX e = expand_name ''SUBPREFIX'' (def_SUBPREFIX e)"

definition MAINLOGIC :: "macro_table \<Rightarrow> src" where
  "MAINLOGIC e = expand_name ''MAINLOGIC'' (def_MAINLOGIC e)"

definition VERSION :: "macro_table \<Rightarrow> src" where
  "VERSION e = expand_name ''VERSION'' (def_VERSION e)"

definition VERSION_AR :: "macro_table \<Rightarrow> src" where
  "VERSION_AR e = expand_name ''VERSION_AR'' (def_VERSION_AR e)"

definition VERSION_CONFIG :: "macro_table \<Rightarrow> src" where
  "VERSION_CONFIG e = expand_name ''VERSION_CONFIG'' (def_VERSION_CONFIG e)"

definition DEBUG_SETTINGS :: "macro_table \<Rightarrow> src" where
  "DEBUG_SETTINGS e = expand_name ''DEBUG_SETTINGS'' (def_DEBUG_SETTINGS e)"

text \<open>
  Line 324: \<^verbatim>\<open>#var1\<close> is the argument between double quotes. The header relies on
  the argument being expanded first: line 63 means the version number by
  \<^verbatim>\<open>QUOTE(VERSION)\<close>, and line 554 the name of the addon by
  \<^verbatim>\<open>QUOTE(Initializing: ADDON version: VERSION)\<close>.
\<close>

definition double_quoted :: "src \<Rightarrow> src" where
  "double_quoted t = [CHR 0x22] @ t @ [CHR 0x22]"

definition QUOTE :: "src \<Rightarrow> src" where
  "QUOTE var1 = double_quoted var1"

text \<open>Lines 42-64: the defaults of the names that the including file may leave undefined.\<close>

definition default_MAINPREFIX :: "macro_table \<Rightarrow> macro_table" where
  "default_MAINPREFIX d =
     (if def_MAINPREFIX d = None then d\<lparr>def_MAINPREFIX := Some ''x''\<rparr> else d)"

definition default_SUBPREFIX :: "macro_table \<Rightarrow> macro_table" where
  "default_SUBPREFIX d =
     (if def_SUBPREFIX d = None then d\<lparr>def_SUBPREFIX := Some ''addons''\<rparr> else d)"

definition default_MAINLOGIC :: "macro_table \<Rightarrow> macro_table" where
  "default_MAINLOGIC d =
     (if def_MAINLOGIC d = None then d\<lparr>def_MAINLOGIC := Some ''main''\<rparr> else d)"

definition default_VERSION :: "macro_table \<Rightarrow> macro_table" where
  "default_VERSION d =
     (if def_VERSION d = None then d\<lparr>def_VERSION := Some ''0''\<rparr> else d)"

definition default_VERSION_AR :: "macro_table \<Rightarrow> macro_table" where
  "default_VERSION_AR d =
     (if def_VERSION_AR d = None then d\<lparr>def_VERSION_AR := Some (VERSION d)\<rparr> else d)"

definition default_VERSION_CONFIG :: "macro_table \<Rightarrow> macro_table" where
  "default_VERSION_CONFIG d =
     (if def_VERSION_CONFIG d = None
      then d\<lparr>def_VERSION_CONFIG :=
               Some (''version = '' @ VERSION d @ ''; versionStr = '' @ QUOTE (VERSION d)
                       @ ''; versionAr[] = {'' @ VERSION_AR d @ ''}'')\<rparr>
      else d)"

text \<open>Lines 118-132: the three blocks that complete the debug modes, in source order.\<close>

definition full_enables_normal :: "macro_table \<Rightarrow> macro_table" where
  "full_enables_normal d =
     (if def_DEBUG_MODE_FULL d then d\<lparr>def_DEBUG_MODE_NORMAL := True\<rparr> else d)"

definition normal_enables_minimal :: "macro_table \<Rightarrow> macro_table" where
  "normal_enables_minimal d =
     (if def_DEBUG_MODE_NORMAL d then d\<lparr>def_DEBUG_MODE_MINIMAL := True\<rparr> else d)"

definition no_mode_is_normal :: "macro_table \<Rightarrow> macro_table" where
  "no_mode_is_normal d =
     (if \<not> def_DEBUG_MODE_MINIMAL d
      then d\<lparr>def_DEBUG_MODE_NORMAL := True, def_DEBUG_MODE_MINIMAL := True\<rparr> else d)"

text \<open>Lines 550-552.\<close>

definition default_DEBUG_SETTINGS :: "macro_table \<Rightarrow> macro_table" where
  "default_DEBUG_SETTINGS d =
     (if def_DEBUG_SETTINGS d = None
      then d\<lparr>def_DEBUG_SETTINGS := Some ''[false, true, false]''\<rparr> else d)"

text \<open>Including the header runs these blocks one after the other.\<close>

definition include_header :: "macro_table \<Rightarrow> macro_table" where
  "include_header d =
     default_DEBUG_SETTINGS (no_mode_is_normal (normal_enables_minimal (full_enables_normal
       (default_VERSION_CONFIG (default_VERSION_AR (default_VERSION (default_MAINLOGIC
          (default_SUBPREFIX (default_MAINPREFIX d)))))))))"

section \<open>Naming and path macros\<close>

text \<open>
  These macros build text. Each function-like macro is a function from the texts of its
  arguments to its replacement text; \<^verbatim>\<open>##\<close> glues its neighbours together and
  leaves nothing behind. The macros of this section are the ones that the header calls
  internal and the object-like macros built on them. An internal macro is invoked from
  the replacement text of another macro, which hands it texts that are expanded already.
\<close>

text \<open>Lines 322-323.\<close>

definition DOUBLES :: "src \<Rightarrow> src \<Rightarrow> src" where
  "DOUBLES var1 var2 = var1 @ ''_'' @ var2"

definition TRIPLES :: "src \<Rightarrow> src \<Rightarrow> src \<Rightarrow> src" where
  "TRIPLES var1 var2 var3 = var1 @ ''_'' @ var2 @ ''_'' @ var3"

text \<open>Lines 326-338: the component names, with and without \<^verbatim>\<open>MODULAR\<close>.\<close>

definition COMPONENT_T :: "macro_table \<Rightarrow> src" where
  "COMPONENT_T e = (if def_MODULAR e then DOUBLES ''t'' (COMPONENT e) else COMPONENT e)"

definition COMPONENT_M :: "macro_table \<Rightarrow> src" where
  "COMPONENT_M e = (if def_MODULAR e then DOUBLES ''m'' (COMPONENT e) else COMPONENT e)"

definition COMPONENT_S :: "macro_table \<Rightarrow> src" where
  "COMPONENT_S e = (if def_MODULAR e then DOUBLES ''s'' (COMPONENT e) else COMPONENT e)"

definition COMPONENT_C :: "macro_table \<Rightarrow> src" where
  "COMPONENT_C e = (if def_MODULAR e then DOUBLES ''c'' (COMPONENT e) else COMPONENT e)"

definition COMPONENT_F :: "macro_table \<Rightarrow> src" where
  "COMPONENT_F e = (if def_MODULAR e then COMPONENT_C e else COMPONENT e)"

text \<open>
  Lines 508-511: the logic objects. Here and below a run of blanks, tabs and line
  continuations of the header is written as one blank.
\<close>

definition CREATELOGICS :: "src \<Rightarrow> src \<Rightarrow> src" where
  "CREATELOGICS var1 var2 =
     var1 @ ''_'' @ var2 @ '' = ([sideLogic] call CBA_fnc_getSharedGroup) createUnit [''
       @ double_quoted ''LOGIC'' @ '', [0, 0, 0], [], 0, '' @ double_quoted ''NONE'' @ '']''"

definition CREATELOGICLOCALS :: "src \<Rightarrow> src \<Rightarrow> src" where
  "CREATELOGICLOCALS var1 var2 =
     var1 @ ''_'' @ var2 @ '' = '' @ double_quoted ''LOGIC'' @ '' createVehicleLocal [0, 0, 0]''"

definition CREATELOGICGLOBALS :: "src \<Rightarrow> src \<Rightarrow> src" where
  "CREATELOGICGLOBALS var1 var2 =
     var1 @ ''_'' @ var2 @ '' = ([sideLogic] call CBA_fnc_getSharedGroup) createUnit [''
       @ double_quoted ''LOGIC'' @ '', [0, 0, 0], [], 0, '' @ double_quoted ''NONE''
       @ '']; publicVariable '' @ QUOTE (DOUBLES var1 var2)"

definition CREATELOGICGLOBALTESTS :: "macro_table \<Rightarrow> src \<Rightarrow> src \<Rightarrow> src" where
  "CREATELOGICGLOBALTESTS e var1 var2 =
     var1 @ ''_'' @ var2 @ '' = ([sideLogic] call CBA_fnc_getSharedGroup) createUnit [''
       @ QUOTE (TRIPLES (PREFIX e) (COMPONENT e) ''logic'') @ '', [0, 0, 0], [], 0, ''
       @ double_quoted ''NONE'' @ '']''"

text \<open>
  Lines 516-517, with the path separator of the engine's file system. \<^verbatim>\<open>MAINPREFIX\<close>
  and \<^verbatim>\<open>SUBPREFIX\<close> stand between separators and are expanded.
\<close>

definition bslash :: char where
  "bslash = CHR 0x5C"

definition PATHTO_SYS :: "macro_table \<Rightarrow> src \<Rightarrow> src \<Rightarrow> src \<Rightarrow> src" where
  "PATHTO_SYS e var1 var2 var3 =
     MAINPREFIX e @ [bslash] @ var1 @ [bslash] @ SUBPREFIX e @ [bslash] @ var2 @ [bslash]
       @ var3 @ ''.sqf''"

definition PATHTOF_SYS :: "macro_table \<Rightarrow> src \<Rightarrow> src \<Rightarrow> src \<Rightarrow> src" where
  "PATHTOF_SYS e var1 var2 var3 =
     [bslash] @ MAINPREFIX e @ [bslash] @ var1 @ [bslash] @ SUBPREFIX e @ [bslash] @ var2
       @ [bslash] @ var3"

text \<open>Lines 529-533.\<close>

definition SETVARS :: "src \<Rightarrow> src \<Rightarrow> src" where
  "SETVARS var1 var2 = var1 @ ''_'' @ var2 @ '' setVariable''"

definition SETVARMAINS :: "macro_table \<Rightarrow> src \<Rightarrow> src" where
  "SETVARMAINS e var1 = SETVARS var1 (MAINLOGIC e)"

definition GVARS :: "src \<Rightarrow> src \<Rightarrow> src \<Rightarrow> src" where
  "GVARS var1 var2 var3 = var1 @ ''_'' @ var2 @ ''_'' @ var3"

definition GVARMAINS :: "src \<Rightarrow> src \<Rightarrow> src" where
  "GVARMAINS var1 var2 = var1 @ ''_'' @ var2"

definition CFGSETTINGSS :: "src \<Rightarrow> src \<Rightarrow> src" where
  "CFGSETTINGSS var1 var2 =
     ''configFile >> '' @ double_quoted ''CfgSettings'' @ '' >> '' @ QUOTE var1 @ '' >> ''
       @ QUOTE var2"

text \<open>Lines 569-580.\<close>

definition VERSIONING_SYS :: "src \<Rightarrow> src" where
  "VERSIONING_SYS var1 =
     ''class CfgSettings { class CBA { class Versioning { class '' @ var1
       @ '' { }; }; }; };''"

text \<open>
  Lines 554-562, 582 and 620-628: the object-like macros that the header defines for its
  users.
\<close>

definition ADDON :: "macro_table \<Rightarrow> src" where
  "ADDON e = DOUBLES (PREFIX e) (COMPONENT e)"

definition MSG_INIT :: "macro_table \<Rightarrow> src" where
  "MSG_INIT e = QUOTE (''Initializing: '' @ ADDON e @ '' version: '' @ VERSION e)"

definition MAIN_ADDON :: "macro_table \<Rightarrow> src" where
  "MAIN_ADDON e = DOUBLES (PREFIX e) ''main''"

definition CFGSETTINGS :: "macro_table \<Rightarrow> src" where
  "CFGSETTINGS e = CFGSETTINGSS (PREFIX e) (COMPONENT e)"

definition VERSIONING :: "macro_table \<Rightarrow> src" where
  "VERSIONING e = VERSIONING_SYS (PREFIX e)"

definition SETTINGS :: "macro_table \<Rightarrow> src" where
  "SETTINGS e = DOUBLES (PREFIX e) ''settings''"

definition CREATELOGIC :: "macro_table \<Rightarrow> src" where
  "CREATELOGIC e = CREATELOGICS (PREFIX e) (COMPONENT e)"

definition CREATELOGICGLOBAL :: "macro_table \<Rightarrow> src" where
  "CREATELOGICGLOBAL e = CREATELOGICGLOBALS (PREFIX e) (COMPONENT e)"

definition CREATELOGICGLOBALTEST :: "macro_table \<Rightarrow> src" where
  "CREATELOGICGLOBALTEST e = CREATELOGICGLOBALTESTS e (PREFIX e) (COMPONENT e)"

definition CREATELOGICLOCAL :: "macro_table \<Rightarrow> src" where
  "CREATELOGICLOCAL e = CREATELOGICLOCALS (PREFIX e) (COMPONENT e)"

definition CREATELOGICMAIN :: "macro_table \<Rightarrow> src" where
  "CREATELOGICMAIN e = CREATELOGICS (PREFIX e) (MAINLOGIC e)"

definition SETVAR :: "macro_table \<Rightarrow> src" where
  "SETVAR e = SETVARS (PREFIX e) (COMPONENT e)"

definition SETVARMAIN :: "macro_table \<Rightarrow> src" where
  "SETVARMAIN e = SETVARMAINS e (PREFIX e)"

text \<open>
  A token of the scripting language that names something is a non-empty run of letters,
  digits and underscores.
\<close>

definition ident_char :: "char \<Rightarrow> bool" where
  "ident_char c =
     (c \<in> set ''abcdefghijklmnopqrstuvwxyzABCDEFGHIJKLMNOPQRSTUVWXYZ0123456789_'')"

definition is_token :: "src \<Rightarrow> bool" where
  "is_token t = (t \<noteq> [] \<and> list_all ident_char t)"

section \<open>Script syntax\<close>

text \<open>
  The macros of the second kind expand to script text that the engine runs. Their
  replacement texts are kept as syntax trees of the scripting language, one constructor per
  form that occurs in the header: number and string literals (double- and single-quoted),
  identifiers, array literals, code blocks, parentheses, and unary and binary commands
  named by their keyword. A statement is an assignment, an expression, or the empty
  statement that a semicolon closes when nothing stands in front of it.

  The trees follow the engine's grammar: a unary command binds tighter than every binary
  one, and the binary ones bind by the levels of \<open>precedence\<close> below, operators of
  one level grouping to the left. An argument of such a macro is the tree of its text as
  the preprocessor substitutes it, that is, with the macro names in it replaced already; a
  parameter that must be a name (an assignment target, a name to be quoted) is a piece of
  text, taken in the same way.
\<close>

datatype expr =
    Num nat
  | StrD string
  | StrS string
  | Ident string
  | Arr "expr list"
  | Block "stmt list"
  | Paren expr
  | Unary string expr
  | Binary expr string expr
and stmt =
    Assign string expr
  | Eval expr
  | Empty

text \<open>
  The levels of the engine's binary operators, loosest first: \<^verbatim>\<open>||\<close>;
  \<^verbatim>\<open>&&\<close>; the comparisons; the binary commands named by a word, among them
  \<^verbatim>\<open>select\<close>, \<^verbatim>\<open>call\<close> and \<^verbatim>\<open>then\<close>; \<^verbatim>\<open>else\<close>;
  \<^verbatim>\<open>+\<close> and \<^verbatim>\<open>-\<close>; \<^verbatim>\<open>*\<close> and \<^verbatim>\<open>/\<close>; \<^verbatim>\<open>^\<close>;
  \<^verbatim>\<open>#\<close>.
\<close>

definition precedence :: "string \<Rightarrow> nat" where
  "precedence op =
     (if op \<in> {''||'', ''or''} then 1
      else if op \<in> {''&&'', ''and''} then 2
      else if op \<in> {''=='', ''!='', ''>'', ''<'', ''>='', ''<='', ''>>''} then 3
      else if op = ''else'' then 5
      else if op \<in> {''+'', ''-'', ''max'', ''min''} then 6
      else if op \<in> {''*'', ''/'', ''%'', ''mod'', ''atan2''} then 7
      else if op = ''^'' then 8
      else if op = ''#'' then 9
      else 4)"

text \<open>
  Where a replacement text has \<^verbatim>\<open>L op PARAMETER\<close> and the argument comes without
  parentheses of its own, the text of the argument is pasted behind the operator, and the
  engine reads the result by its grammar: an operator of the argument that binds no
  tighter than \<open>op\<close> takes \<^verbatim>\<open>L op ...\<close> as the start of its left operand.
  \<open>paste_right\<close> gives the tree of the pasted text for an operand \<open>L\<close>;
  \<open>render_paste_right\<close> below confirms that tree and paste have the same text.
\<close>

fun paste_right :: "expr \<Rightarrow> string \<Rightarrow> expr \<Rightarrow> expr" where
  "paste_right L op (Binary a op' b) =
     (if precedence op' \<le> precedence op then Binary (paste_right L op a) op' b
      else Binary L op (Binary a op' b))"
| "paste_right L op M = Binary L op M"

text \<open>
  The same for \<^verbatim>\<open>op PARAMETER\<close> with a unary command, which binds tighter than
  every binary operator of the argument.
\<close>

fun paste_unary :: "string \<Rightarrow> expr \<Rightarrow> expr" where
  "paste_unary op (Binary a op' b) = Binary (paste_unary op a) op' b"
| "paste_unary op M = Unary op M"

section \<open>The engine: values, variables and commands\<close>

text \<open>
  The interpreter belongs to the game engine, not to this header. What follows is the
  fragment of its behaviour that the header's macros rely on, kept as small as the macros
  allow; an operand outside it is an error of the model, never a guessed value.

  Values carry the engine's type names. A handle stands for a value of one of the engine
  types that scripts can only pass around. Numbers are real numbers: the rounding of the
  engine's floating point is not modelled. \<open>VIf\<close> is what the command \<^verbatim>\<open>if\<close>
  returns and \<^verbatim>\<open>then\<close> consumes.
\<close>

datatype handle_type =
  CONFIG | CONTROL | DISPLAY | GROUP | OBJECT | SCRIPT | SIDE | TEXT | LOCATION

text \<open>
  The two library functions that the macros call. They belong to the library's diagnostic
  addon, not to this header; see \<open>library_call\<close> below for what a call does.
\<close>

datatype library_fn = CBA_fnc_log | CBA_fnc_error

datatype val =
    VNil
  | VScalar real
  | VBool bool
  | VString string
  | VArray "val list"
  | VCode "stmt list"
  | VIf bool
  | VHandle handle_type nat
  | VLib library_fn

text \<open>
  A script error ends the evaluation: a command applied to a value of the wrong type (the
  error names the command), an index outside an array (the engine reports it as a zero
  divisor), and a command outside the modelled fragment. \<open>Out_Of_Fuel\<close> is not an error of
  the engine: it says that the evaluation needed more nested calls than it was given.
\<close>

datatype err = Type_Error string | Zero_Divisor | Unknown_Command string | Out_Of_Fuel

text \<open>
  The state: the global variables (an undefined variable is nil), the scopes of local
  variables, innermost first, and the runtime log, newest entry first.
\<close>

type_synonym frame = "string \<rightharpoonup> val"

record state =
  globals :: "string \<Rightarrow> val"
  frames :: "frame list"
  rpt :: "(library_fn \<times> val) list"

text \<open>
  How \<^verbatim>\<open>format\<close> renders values is the engine's business; the formatter is a
  parameter, and every result below holds for every formatter.
\<close>

record engine =
  format_text :: "string \<Rightarrow> val list \<Rightarrow> string"

text \<open>
  A name that starts with an underscore is a local variable. Reading a local variable finds
  the innermost scope that declares it; assigning to it updates that scope, or creates the
  variable in the innermost scope when no scope declares it; \<^verbatim>\<open>private\<close> declares
  it, with the value nil, in the innermost scope. A call opens a scope, which holds
  \<^verbatim>\<open>_this\<close> when an argument is passed, and closes it on return.
\<close>

definition is_local :: "string \<Rightarrow> bool" where
  "is_local x = (take 1 x = ''_'')"

fun lookup_frames :: "frame list \<Rightarrow> string \<Rightarrow> val" where
  "lookup_frames [] x = VNil"
| "lookup_frames (F # Fs) x = (case F x of Some v \<Rightarrow> v | None \<Rightarrow> lookup_frames Fs x)"

definition declared :: "frame list \<Rightarrow> string \<Rightarrow> bool" where
  "declared Fs x = list_ex (\<lambda>F. F x \<noteq> None) Fs"

fun assign_frames :: "frame list \<Rightarrow> string \<Rightarrow> val \<Rightarrow> frame list" where
  "assign_frames [] x v = [[x \<mapsto> v]]"
| "assign_frames (F # Fs) x v =
     (if F x = None \<and> declared Fs x then F # assign_frames Fs x v else F(x \<mapsto> v) # Fs)"

fun declare_frames :: "frame list \<Rightarrow> string \<Rightarrow> frame list" where
  "declare_frames [] x = [[x \<mapsto> VNil]]"
| "declare_frames (F # Fs) x = F(x \<mapsto> VNil) # Fs"

definition get_var :: "string \<Rightarrow> state \<Rightarrow> val" where
  "get_var x s = (if is_local x then lookup_frames (frames s) x else globals s x)"

definition set_var :: "string \<Rightarrow> val \<Rightarrow> state \<Rightarrow> state" where
  "set_var x v s =
     (if is_local x then s\<lparr>frames := assign_frames (frames s) x v\<rparr>
      else s\<lparr>globals := (globals s)(x := v)\<rparr>)"

definition push_frame :: "val option \<Rightarrow> state \<Rightarrow> state" where
  "push_frame arg s =
     s\<lparr>frames := (case arg of None \<Rightarrow> Map.empty | Some v \<Rightarrow> [''_this'' \<mapsto> v]) # frames s\<rparr>"

definition pop_frame :: "state \<Rightarrow> state" where
  "pop_frame s = s\<lparr>frames := tl (frames s)\<rparr>"

text \<open>
  An identifier is one of the commands without arguments \<^verbatim>\<open>nil\<close>, \<^verbatim>\<open>true\<close> and
  \<^verbatim>\<open>false\<close>, or a variable.
\<close>

definition nular :: "string \<Rightarrow> state \<Rightarrow> val" where
  "nular x s =
     (if x = ''nil'' then VNil
      else if x = ''true'' then VBool True
      else if x = ''false'' then VBool False
      else get_var x s)"

text \<open>What \<^verbatim>\<open>typeName\<close> returns; it is not defined on nil.\<close>

fun handle_name :: "handle_type \<Rightarrow> string" where
  "handle_name CONFIG = ''CONFIG''"
| "handle_name CONTROL = ''CONTROL''"
| "handle_name DISPLAY = ''DISPLAY''"
| "handle_name GROUP = ''GROUP''"
| "handle_name OBJECT = ''OBJECT''"
| "handle_name SCRIPT = ''SCRIPT''"
| "handle_name SIDE = ''SIDE''"
| "handle_name TEXT = ''TEXT''"
| "handle_name LOCATION = ''LOCATION''"

fun type_name :: "val \<Rightarrow> string" where
  "type_name VNil = []"
| "type_name (VScalar r) = ''SCALAR''"
| "type_name (VBool b) = ''BOOL''"
| "type_name (VString t) = ''STRING''"
| "type_name (VArray vs) = ''ARRAY''"
| "type_name (VCode b) = ''CODE''"
| "type_name (VIf b) = ''IF''"
| "type_name (VHandle h i) = handle_name h"
| "type_name (VLib l) = ''CODE''"

text \<open>The engine compares strings without regard to case.\<close>

definition lower_char :: "char \<Rightarrow> char" where
  "lower_char c =
     (case map_of (zip ''ABCDEFGHIJKLMNOPQRSTUVWXYZ'' ''abcdefghijklmnopqrstuvwxyz'') c of
        None \<Rightarrow> c | Some l \<Rightarrow> l)"

definition same_text :: "string \<Rightarrow> string \<Rightarrow> bool" where
  "same_text a b = (map lower_char a = map lower_char b)"

text \<open>
  The unary commands of the header, on an evaluated operand: \<^verbatim>\<open>typeName\<close>,
  \<^verbatim>\<open>floor\<close>, \<^verbatim>\<open>if\<close> (which takes a boolean and nothing else),
  \<^verbatim>\<open>isNil\<close> on a variable name, \<^verbatim>\<open>private\<close> on a name or an array of names,
  and \<^verbatim>\<open>format\<close>. \<^verbatim>\<open>call\<close> and \<^verbatim>\<open>isNil\<close> on a code block run code
  and are part of the evaluator.
\<close>

fun names_of :: "val list \<Rightarrow> string list option" where
  "names_of [] = Some []"
| "names_of (v # vs) =
     (case v of VString x \<Rightarrow> map_option ((#) x) (names_of vs) | _ \<Rightarrow> None)"

definition declare_var :: "string \<Rightarrow> state \<Rightarrow> state" where
  "declare_var x s = s\<lparr>frames := declare_frames (frames s) x\<rparr>"

definition unary_op :: "engine \<Rightarrow> string \<Rightarrow> val \<Rightarrow> state \<Rightarrow> err + val \<times> state" where
  "unary_op E op v s =
     (if op = ''typeName'' then
        (case v of VNil \<Rightarrow> Inl (Type_Error op) | _ \<Rightarrow> Inr (VString (type_name v), s))
      else if op = ''floor'' then
        (case v of VScalar r \<Rightarrow> Inr (VScalar (of_int \<lfloor>r\<rfloor>), s) | _ \<Rightarrow> Inl (Type_Error op))
      else if op = ''if'' then
        (case v of VBool b \<Rightarrow> Inr (VIf b, s) | _ \<Rightarrow> Inl (Type_Error op))
      else if op = ''isNil'' then
        (case v of VString x \<Rightarrow> Inr (VBool (get_var x s = VNil), s) | _ \<Rightarrow> Inl (Type_Error op))
      else if op = ''private'' then
        (case v of
           VString x \<Rightarrow> if is_local x then Inr (VNil, declare_var x s) else Inl (Type_Error op)
         | VArray vs \<Rightarrow>
             (case names_of vs of
                Some xs \<Rightarrow>
                  if list_all is_local xs then Inr (VNil, fold declare_var xs s)
                  else Inl (Type_Error op)
              | None \<Rightarrow> Inl (Type_Error op))
         | _ \<Rightarrow> Inl (Type_Error op))
      else if op = ''format'' then
        (case v of
           VArray (VString t # args) \<Rightarrow> Inr (VString (format_text E t args), s)
         | _ \<Rightarrow> Inl (Type_Error op))
      else Inl (Unknown_Command op))"

text \<open>
  The binary commands of the header. \<^verbatim>\<open>select\<close> takes an array and a whole number
  from 0 to the length of the array less one; the engine's rounding of other numbers and
  its answer at the length itself are not modelled and count as errors. \<^verbatim>\<open>==\<close>
  compares numbers, strings and handles of one type. \<^verbatim>\<open>+\<close> adds numbers and joins
  strings and arrays. \<^verbatim>\<open>else\<close> pairs two code blocks for \<^verbatim>\<open>then\<close>.
\<close>

definition select_op :: "val list \<Rightarrow> real \<Rightarrow> err + val" where
  "select_op xs i =
     (if 0 \<le> i \<and> i = of_int \<lfloor>i\<rfloor> \<and> nat \<lfloor>i\<rfloor> < length xs then Inr (xs ! nat \<lfloor>i\<rfloor>)
      else Inl Zero_Divisor)"

definition binary_op :: "string \<Rightarrow> val \<Rightarrow> val \<Rightarrow> err + val" where
  "binary_op op a b =
     (if op = ''select'' then
        (case (a, b) of (VArray xs, VScalar i) \<Rightarrow> select_op xs i | _ \<Rightarrow> Inl (Type_Error op))
      else if op = ''=='' then
        (case (a, b) of
           (VScalar x, VScalar y) \<Rightarrow> Inr (VBool (x = y))
         | (VString x, VString y) \<Rightarrow> Inr (VBool (same_text x y))
         | (VHandle h i, VHandle k j) \<Rightarrow>
             if h = k then Inr (VBool (i = j)) else Inl (Type_Error op)
         | _ \<Rightarrow> Inl (Type_Error op))
      else if op = ''+'' then
        (case (a, b) of
           (VScalar x, VScalar y) \<Rightarrow> Inr (VScalar (x + y))
         | (VString x, VString y) \<Rightarrow> Inr (VString (x @ y))
         | (VArray x, VArray y) \<Rightarrow> Inr (VArray (x @ y))
         | _ \<Rightarrow> Inl (Type_Error op))
      else if op = ''else'' then
        (case (a, b) of
           (VCode x, VCode y) \<Rightarrow> Inr (VArray [VCode x, VCode y])
         | _ \<Rightarrow> Inl (Type_Error op))
      else Inl (Unknown_Command op))"

text \<open>
  The code that \<^verbatim>\<open>then\<close> runs: its right operand is one block, run when the
  condition holds, or the pair that \<^verbatim>\<open>else\<close> made.
\<close>

definition branch :: "bool \<Rightarrow> val \<Rightarrow> err + val option" where
  "branch c v =
     (case v of
        VCode t \<Rightarrow> Inr (if c then Some (VCode t) else None)
      | VArray [VCode t, VCode e] \<Rightarrow> Inr (Some (if c then VCode t else VCode e))
      | _ \<Rightarrow> Inl (Type_Error ''then''))"

text \<open>
  Modelled from the spec: \<^verbatim>\<open>CBA_fnc_log\<close> and \<^verbatim>\<open>CBA_fnc_error\<close> are defined in
  the library's diagnostic addon, whose source is not part of this header. The
  specification says of them that they record messages in the engine's runtime log; so a
  call of either puts its argument in front of the log, tagged with the function, and
  returns nil.
\<close>

definition library_call :: "library_fn \<Rightarrow> val option \<Rightarrow> state \<Rightarrow> err + val \<times> state" where
  "library_call l arg s =
     Inr (VNil, s\<lparr>rpt := (l, case arg of None \<Rightarrow> VNil | Some v \<Rightarrow> v) # rpt s\<rparr>)"

text \<open>
  The evaluator. Operands are evaluated left to right and the state is threaded through.
  \<open>n\<close> bounds the depth of nested calls: running a code block or a library function, by
  \<^verbatim>\<open>call\<close>, \<^verbatim>\<open>then\<close> or \<^verbatim>\<open>isNil\<close>, takes one unit, and \<open>run\<close> at
  depth 0 gives \<open>Out_Of_Fuel\<close>. \<open>exec\<close> runs statements in order and returns the value
  of the last one, an assignment having no value and an empty statement leaving the value
  as it is; \<open>run\<close> opens the scope of a call, runs the block and closes the scope.
\<close>

function (sequential) eval :: "engine \<Rightarrow> nat \<Rightarrow> expr \<Rightarrow> state \<Rightarrow> err + val \<times> state"
  and eval_list :: "engine \<Rightarrow> nat \<Rightarrow> expr list \<Rightarrow> state \<Rightarrow> err + val list \<times> state"
  and exec :: "engine \<Rightarrow> nat \<Rightarrow> stmt list \<Rightarrow> val \<Rightarrow> state \<Rightarrow> err + val \<times> state"
  and run :: "engine \<Rightarrow> nat \<Rightarrow> val \<Rightarrow> val option \<Rightarrow> state \<Rightarrow> err + val \<times> state"
where
  "eval E n (Num k) s = Inr (VScalar (of_nat k), s)"
| "eval E n (StrD t) s = Inr (VString t, s)"
| "eval E n (StrS t) s = Inr (VString t, s)"
| "eval E n (Ident x) s = Inr (nular x s, s)"
| "eval E n (Arr es) s =
     (case eval_list E n es s of Inl x \<Rightarrow> Inl x | Inr (vs, s1) \<Rightarrow> Inr (VArray vs, s1))"
| "eval E n (Block b) s = Inr (VCode b, s)"
| "eval E n (Paren e) s = eval E n e s"
| "eval E n (Unary op a) s =
     (case eval E n a s of
        Inl x \<Rightarrow> Inl x
      | Inr (v, s1) \<Rightarrow>
          if op = ''call'' then run E n v None s1
          else if op = ''isNil'' \<and> type_name v = ''CODE'' then
            (case run E n v None s1 of
               Inl x \<Rightarrow> Inl x
             | Inr (r, s2) \<Rightarrow> Inr (VBool (r = VNil), s2))
          else unary_op E op v s1)"
| "eval E n (Binary a op b) s =
     (case eval E n a s of
        Inl x \<Rightarrow> Inl x
      | Inr (va, s1) \<Rightarrow>
         (case eval E n b s1 of
            Inl x \<Rightarrow> Inl x
          | Inr (vb, s2) \<Rightarrow>
              if op = ''call'' then run E n vb (Some va) s2
              else if op = ''then'' then
                (case va of
                   VIf c \<Rightarrow>
                     (case branch c vb of
                        Inl x \<Rightarrow> Inl x
                      | Inr None \<Rightarrow> Inr (VNil, s2)
                      | Inr (Some code) \<Rightarrow> run E n code None s2)
                 | _ \<Rightarrow> Inl (Type_Error op))
              else (case binary_op op va vb of Inl x \<Rightarrow> Inl x | Inr r \<Rightarrow> Inr (r, s2))))"
| "eval_list E n [] s = Inr ([], s)"
| "eval_list E n (e # es) s =
     (case eval E n e s of
        Inl x \<Rightarrow> Inl x
      | Inr (v, s1) \<Rightarrow>
         (case eval_list E n es s1 of Inl x \<Rightarrow> Inl x | Inr (vs, s2) \<Rightarrow> Inr (v # vs, s2)))"
| "exec E n [] acc s = Inr (acc, s)"
| "exec E n (Eval e # rest) acc s =
     (case eval E n e s of Inl x \<Rightarrow> Inl x | Inr (v, s1) \<Rightarrow> exec E n rest v s1)"
| "exec E n (Assign x e # rest) acc s =
     (case eval E n e s of
        Inl x \<Rightarrow> Inl x
      | Inr (v, s1) \<Rightarrow> exec E n rest VNil (set_var x v s1))"
| "exec E n (Empty # rest) acc s = exec E n rest acc s"
| "run E 0 c arg s = Inl Out_Of_Fuel"
| "run E (Suc n) c arg s =
     (case c of
        VCode body \<Rightarrow>
          (case exec E n body VNil (push_frame arg s) of
             Inl x \<Rightarrow> Inl x
           | Inr (r, s1) \<Rightarrow> Inr (r, pop_frame s1))
      | VLib l \<Rightarrow> library_call l arg s
      | _ \<Rightarrow> Inl (Type_Error ''call''))"
  by pat_completeness auto
termination
  by (relation "inv_image (less_than <*lex*> less_than)
        (\<lambda>x. case x of
           Inl (Inl (E, n, e, s)) \<Rightarrow> (n, Suc (size e))
         | Inl (Inr (E, n, es, s)) \<Rightarrow> (n, Suc (size_list size es))
         | Inr (Inl (E, n, b, acc, s)) \<Rightarrow> (n, Suc (size_list size b))
         | Inr (Inr (E, n, c, arg, s)) \<Rightarrow> (n, 0))")
    auto

section \<open>Rendering a tree as text\<close>

text \<open>
  A macro parameter that occurs inside a single-quoted string of a replacement text is
  replaced by the text of the argument. \<open>render\<close> gives the text of a tree; tokens are
  separated by single blanks, and a semicolon follows every statement that has a statement
  behind it, the empty statement having no text.
\<close>

definition digit_char :: "nat \<Rightarrow> char" where
  "digit_char k = ''0123456789'' ! (k mod 10)"

fun show_nat :: "nat \<Rightarrow> string" where
  "show_nat k = (if k < 10 then [digit_char k] else show_nat (k div 10) @ [digit_char k])"

declare show_nat.simps [simp del]

fun render :: "expr \<Rightarrow> src"
  and render_list :: "expr list \<Rightarrow> src"
  and render_stmt :: "stmt \<Rightarrow> src"
  and render_stmts :: "stmt list \<Rightarrow> src"
where
  "render (Num k) = show_nat k"
| "render (StrD t) = [CHR 0x22] @ t @ [CHR 0x22]"
| "render (StrS t) = [CHR 0x27] @ t @ [CHR 0x27]"
| "render (Ident x) = x"
| "render (Arr es) = ''['' @ render_list es @ '']''"
| "render (Block b) = ''{ '' @ render_stmts b @ '' }''"
| "render (Paren e) = ''('' @ render e @ '')''"
| "render (Unary op a) = op @ '' '' @ render a"
| "render (Binary a op b) = render a @ '' '' @ op @ '' '' @ render b"
| "render_list [] = []"
| "render_list (e # es) = render e @ (if es = [] then [] else '', '' @ render_list es)"
| "render_stmt (Assign x e) = x @ '' = '' @ render e"
| "render_stmt (Eval e) = render e"
| "render_stmt Empty = []"
| "render_stmts [] = []"
| "render_stmts (c # cs) =
     render_stmt c
       @ (if cs = [] then []
          else '';'' @ (if render_stmts cs = [] then [] else '' '' @ render_stmts cs))"

section \<open>Logging macros\<close>

text \<open>
  The place of a macro invocation: what the built-in \<^verbatim>\<open>__FILE__\<close> and
  \<^verbatim>\<open>__LINE__\<close> expand to there.
\<close>

record site =
  site_file :: string
  site_line :: nat

text \<open>
  Lines 134-138. Macro names inside single quotes are expanded, so \<^verbatim>\<open>'THIS_FILE'\<close>
  is the single-quoted definition of \<^verbatim>\<open>THIS_FILE\<close>.
\<close>

definition THIS_FILE_macro :: "macro_table \<Rightarrow> site \<Rightarrow> expr" where
  "THIS_FILE_macro e p = (case def_THIS_FILE e of Some t \<Rightarrow> StrS t | None \<Rightarrow> StrD (site_file p))"

definition LINE_macro :: "site \<Rightarrow> expr" where
  "LINE_macro p = Num (site_line p)"

text \<open>
  A macro used as a statement expands to a list of statements. Semicolons separate the
  statements of a list; where a replacement text has a semicolon with nothing in front of
  it or nothing behind it, the list has the empty statement there. So an invocation that
  expands to nothing and stands in front of a semicolon leaves the empty statement.
\<close>

definition statement :: "stmt list \<Rightarrow> stmt list" where
  "statement l = (if l = [] then [Empty] else l)"

text \<open>
  Lines 157-161, 180-184, 205-206 and 229-230. \<^verbatim>\<open>/* disabled */\<close> is the empty
  list. \<^verbatim>\<open>WARNING\<close> pastes its argument behind \<^verbatim>\<open>'WARNING: ' +\<close> without
  parentheses of its own. The replacement texts of \<^verbatim>\<open>ERROR\<close> and
  \<^verbatim>\<open>ERROR_WITH_TITLE\<close> end in a semicolon.
\<close>

definition LOG :: "macro_table \<Rightarrow> site \<Rightarrow> expr \<Rightarrow> stmt list" where
  "LOG e p MESSAGE =
     (if def_DEBUG_MODE_FULL e
      then [Eval (Binary (Arr [THIS_FILE_macro e p, LINE_macro p, MESSAGE]) ''call''
                    (Ident ''CBA_fnc_log''))]
      else [])"

definition WARNING :: "macro_table \<Rightarrow> site \<Rightarrow> expr \<Rightarrow> stmt list" where
  "WARNING e p MESSAGE =
     (if def_DEBUG_MODE_NORMAL e
      then [Eval (Binary
                    (Arr [THIS_FILE_macro e p, LINE_macro p,
                          Paren (paste_right (StrS ''WARNING: '') ''+'' MESSAGE)])
                    ''call'' (Ident ''CBA_fnc_log''))]
      else [])"

definition ERROR :: "macro_table \<Rightarrow> site \<Rightarrow> expr \<Rightarrow> stmt list" where
  "ERROR e p MESSAGE =
     [Eval (Binary (Arr [THIS_FILE_macro e p, LINE_macro p, StrD ''ERROR'', MESSAGE]) ''call''
              (Ident ''CBA_fnc_error'')),
      Empty]"

definition ERROR_WITH_TITLE :: "macro_table \<Rightarrow> site \<Rightarrow> expr \<Rightarrow> expr \<Rightarrow> stmt list" where
  "ERROR_WITH_TITLE e p TITLE MESSAGE =
     [Eval (Binary (Arr [THIS_FILE_macro e p, LINE_macro p, TITLE, MESSAGE]) ''call''
              (Ident ''CBA_fnc_error'')),
      Empty]"

text \<open>Line 249.\<close>

definition RETNIL :: "expr \<Rightarrow> expr" where
  "RETNIL VARIABLE =
     Binary (Unary ''if'' (Paren (Unary ''isNil'' (Block [Eval VARIABLE])))) ''then''
       (Binary (Block [Eval (Ident ''nil'')]) ''else'' (Block [Eval VARIABLE]))"

text \<open>
  Lines 278-314. The format string names each argument by its text; the enabled and the
  disabled definitions of each \<^verbatim>\<open>TRACE_n\<close> are the two branches.
\<close>

definition trace_call :: "macro_table \<Rightarrow> site \<Rightarrow> src \<Rightarrow> expr \<Rightarrow> expr list \<Rightarrow> stmt list" where
  "trace_call e p template MESSAGE args =
     [Eval (Binary
              (Arr [THIS_FILE_macro e p, LINE_macro p,
                    Unary ''format'' (Arr (StrS template # MESSAGE # map RETNIL args))])
              ''call'' (Ident ''CBA_fnc_log''))]"

definition TRACE_1 :: "macro_table \<Rightarrow> site \<Rightarrow> expr \<Rightarrow> expr \<Rightarrow> stmt list" where
  "TRACE_1 e p MESSAGE A =
     (if def_DEBUG_MODE_FULL e
      then trace_call e p (''%1: '' @ render A @ ''=%2'') MESSAGE [A]
      else [])"

definition TRACE_2 :: "macro_table \<Rightarrow> site \<Rightarrow> expr \<Rightarrow> expr \<Rightarrow> expr \<Rightarrow> stmt list" where
  "TRACE_2 e p MESSAGE A B =
     (if def_DEBUG_MODE_FULL e
      then trace_call e p (''%1: '' @ render A @ ''=%2, '' @ render B @ ''=%3'') MESSAGE [A, B]
      else [])"

definition TRACE_3 ::
  "macro_table \<Rightarrow> site \<Rightarrow> expr \<Rightarrow> expr \<Rightarrow> expr \<Rightarrow> expr \<Rightarrow> stmt list" where
  "TRACE_3 e p MESSAGE A B C =
     (if def_DEBUG_MODE_FULL e
      then trace_call e p
             (''%1: '' @ render A @ ''=%2, '' @ render B @ ''=%3, '' @ render C @ ''=%4'')
             MESSAGE [A, B, C]
      else [])"

definition TRACE_4 ::
  "macro_table \<Rightarrow> site \<Rightarrow> expr \<Rightarrow> expr \<Rightarrow> expr \<Rightarrow> expr \<Rightarrow> expr \<Rightarrow> stmt list" where
  "TRACE_4 e p MESSAGE A B C D =
     (if def_DEBUG_MODE_FULL e
      then trace_call e p
             (''%1: '' @ render A @ ''=%2, '' @ render B @ ''=%3, '' @ render C @ ''=%4, ''
                @ render D @ ''=%5'')
             MESSAGE [A, B, C, D]
      else [])"

definition TRACE_5 ::
  "macro_table \<Rightarrow> site \<Rightarrow> expr \<Rightarrow> expr \<Rightarrow> expr \<Rightarrow> expr \<Rightarrow> expr \<Rightarrow> expr \<Rightarrow> stmt list" where
  "TRACE_5 e p MESSAGE A B C D E' =
     (if def_DEBUG_MODE_FULL e
      then trace_call e p
             (''%1: '' @ render A @ ''=%2, '' @ render B @ ''=%3, '' @ render C @ ''=%4, ''
                @ render D @ ''=%5, '' @ render E' @ ''=%6'')
             MESSAGE [A, B, C, D, E']
      else [])"

definition TRACE_6 ::
  "macro_table \<Rightarrow> site \<Rightarrow> expr \<Rightarrow> expr \<Rightarrow> expr \<Rightarrow> expr \<Rightarrow> expr \<Rightarrow> expr \<Rightarrow> expr \<Rightarrow> stmt list"
where
  "TRACE_6 e p MESSAGE A B C D E' F =
     (if def_DEBUG_MODE_FULL e
      then trace_call e p
             (''%1: '' @ render A @ ''=%2, '' @ render B @ ''=%3, '' @ render C @ ''=%4, ''
                @ render D @ ''=%5, '' @ render E' @ ''=%6, '' @ render F @ ''=%7'')
             MESSAGE [A, B, C, D, E', F]
      else [])"

definition TRACE_7 ::
  "macro_table \<Rightarrow> site \<Rightarrow> expr \<Rightarrow> expr \<Rightarrow> expr \<Rightarrow> expr \<Rightarrow> expr \<Rightarrow> expr \<Rightarrow> expr \<Rightarrow> expr
     \<Rightarrow> stmt list"
where
  "TRACE_7 e p MESSAGE A B C D E' F G =
     (if def_DEBUG_MODE_FULL e
      then trace_call e p
             (''%1: '' @ render A @ ''=%2, '' @ render B @ ''=%3, '' @ render C @ ''=%4, ''
                @ render D @ ''=%5, '' @ render E' @ ''=%6, '' @ render F @ ''=%7, ''
                @ render G @ ''=%8'')
             MESSAGE [A, B, C, D, E', F, G]
      else [])"

definition TRACE_8 ::
  "macro_table \<Rightarrow> site \<Rightarrow> expr \<Rightarrow> expr \<Rightarrow> expr \<Rightarrow> expr \<Rightarrow> expr \<Rightarrow> expr \<Rightarrow> expr \<Rightarrow> expr
     \<Rightarrow> expr \<Rightarrow> stmt list"
where
  "TRACE_8 e p MESSAGE A B C D E' F G H =
     (if def_DEBUG_MODE_FULL e
      then trace_call e p
             (''%1: '' @ render A @ ''=%2, '' @ render B @ ''=%3, '' @ render C @ ''=%4, ''
                @ render D @ ''=%5, '' @ render E' @ ''=%6, '' @ render F @ ''=%7, ''
                @ render G @ ''=%8, '' @ render H @ ''=%9'')
             MESSAGE [A, B, C, D, E', F, G, H]
      else [])"

section \<open>Macro names in arguments\<close>

text \<open>
  The preprocessor expands the macro names that occur in the argument of a function-like
  macro before it substitutes the argument; the header relies on it in lines 63, 502-505,
  554 and 600. \<open>object_like\<close> gives, for every name that is an object-like macro once
  the header is included, the text that the name stands for at a site: the built-in
  \<^verbatim>\<open>__FILE__\<close> and \<^verbatim>\<open>__LINE__\<close>, the names of the table, and the
  object-like macros that the header defines. A flag stands for the empty text.
\<close>

definition flag_text :: "bool \<Rightarrow> src option" where
  "flag_text b = (if b then Some [] else None)"

definition object_like :: "macro_table \<Rightarrow> site \<Rightarrow> src \<Rightarrow> src option" where
  "object_like e p name =
     (if name = ''__FILE__'' then Some (double_quoted (site_file p))
      else if name = ''__LINE__'' then Some (show_nat (site_line p))
      else if name = ''PREFIX'' then def_PREFIX e
      else if name = ''COMPONENT'' then def_COMPONENT e
      else if name = ''MAINPREFIX'' then def_MAINPREFIX e
      else if name = ''SUBPREFIX'' then def_SUBPREFIX e
      else if name = ''MAINLOGIC'' then def_MAINLOGIC e
      else if name = ''VERSION'' then def_VERSION e
      else if name = ''VERSION_AR'' then def_VERSION_AR e
      else if name = ''VERSION_CONFIG'' then def_VERSION_CONFIG e
      else if name = ''DEBUG_SETTINGS'' then def_DEBUG_SETTINGS e
      else if name = ''THIS_FILE'' then def_THIS_FILE e
      else if name = ''MODULAR'' then flag_text (def_MODULAR e)
      else if name = ''DEBUG_MODE_FULL'' then flag_text (def_DEBUG_MODE_FULL e)
      else if name = ''DEBUG_MODE_NORMAL'' then flag_text (def_DEBUG_MODE_NORMAL e)
      else if name = ''DEBUG_MODE_MINIMAL'' then flag_text (def_DEBUG_MODE_MINIMAL e)
      else if name = ''THIS_FILE_'' then Some (render (THIS_FILE_macro e p))
      else if name = ''COMPONENT_T'' then Some (COMPONENT_T e)
      else if name = ''COMPONENT_M'' then Some (COMPONENT_M e)
      else if name = ''COMPONENT_S'' then Some (COMPONENT_S e)
      else if name = ''COMPONENT_C'' then Some (COMPONENT_C e)
      else if name = ''COMPONENT_F'' then Some (COMPONENT_F e)
      else if name = ''MSG_INIT'' then Some (MSG_INIT e)
      else if name = ''ADDON'' then Some (ADDON e)
      else if name = ''MAIN_ADDON'' then Some (MAIN_ADDON e)
      else if name = ''CFGSETTINGS'' then Some (CFGSETTINGS e)
      else if name = ''VERSIONING'' then Some (VERSIONING e)
      else if name = ''SETTINGS'' then Some (SETTINGS e)
      else if name = ''CREATELOGIC'' then Some (CREATELOGIC e)
      else if name = ''CREATELOGICGLOBAL'' then Some (CREATELOGICGLOBAL e)
      else if name = ''CREATELOGICGLOBALTEST'' then Some (CREATELOGICGLOBALTEST e)
      else if name = ''CREATELOGICLOCAL'' then Some (CREATELOGICLOCAL e)
      else if name = ''CREATELOGICMAIN'' then Some (CREATELOGICMAIN e)
      else if name = ''SETVAR'' then Some (SETVAR e)
      else if name = ''SETVARMAIN'' then Some (SETVARMAIN e)
      else None)"

text \<open>
  The text of an argument is cut into its name tokens, the maximal runs of letters, digits
  and underscores, and the characters between them; a double-quoted string is one piece,
  and no name inside it is replaced (inside single quotes names are replaced, as in line
  135). \<open>split_tokens q acc t\<close> reads \<open>t\<close> with the piece \<open>acc\<close> under way, \<open>q\<close>
  saying whether that piece is a double-quoted string.
\<close>

fun split_tokens :: "bool \<Rightarrow> src \<Rightarrow> src \<Rightarrow> src list" where
  "split_tokens q acc [] = (if acc = [] then [] else [rev acc])"
| "split_tokens q acc (c # cs) =
     (if q then
        (if c = CHR 0x22 then rev (c # acc) # split_tokens False [] cs
         else split_tokens True (c # acc) cs)
      else if c = CHR 0x22 then
        (if acc = [] then [] else [rev acc]) @ split_tokens True [c] cs
      else if ident_char c then split_tokens False (c # acc) cs
      else (if acc = [] then [] else [rev acc]) @ [c] # split_tokens False [] cs)"

definition replace_token :: "macro_table \<Rightarrow> site \<Rightarrow> src \<Rightarrow> src" where
  "replace_token e p tok =
     (if is_token tok then (case object_like e p tok of Some body \<Rightarrow> body | None \<Rightarrow> tok)
      else tok)"

text \<open>
  The argument as the preprocessor substitutes it. An argument that is itself an
  invocation of a function-like macro is written as the application of that macro.
\<close>

definition argument :: "macro_table \<Rightarrow> site \<Rightarrow> src \<Rightarrow> src" where
  "argument e p t = concat (map (replace_token e p) (split_tokens False [] t))"

text \<open>
  Lines 563-564, 600, 618 and 634: the naming and path macros for users of the header.
\<close>

definition PATHTO :: "macro_table \<Rightarrow> site \<Rightarrow> src \<Rightarrow> src" where
  "PATHTO e p var1 = PATHTO_SYS e (PREFIX e) (COMPONENT_F e) (argument e p var1)"

definition PATHTOF :: "macro_table \<Rightarrow> site \<Rightarrow> src \<Rightarrow> src" where
  "PATHTOF e p var1 = PATHTOF_SYS e (PREFIX e) (COMPONENT e) (argument e p var1)"

definition GVAR :: "macro_table \<Rightarrow> site \<Rightarrow> src \<Rightarrow> src" where
  "GVAR e p var1 = GVARS (PREFIX e) (COMPONENT e) (argument e p var1)"

definition GVARMAIN :: "macro_table \<Rightarrow> site \<Rightarrow> src \<Rightarrow> src" where
  "GVARMAIN e p var1 = GVARMAINS (PREFIX e) (argument e p var1)"

definition FUNC :: "macro_table \<Rightarrow> site \<Rightarrow> src \<Rightarrow> src" where
  "FUNC e p var1 = TRIPLES (DOUBLES (PREFIX e) (COMPONENT e)) ''fnc'' (argument e p var1)"

section \<open>Variable and array macros\<close>

text \<open>
  Line 502. \<^verbatim>\<open>#VARIABLE\<close> is the argument as a double-quoted string.
\<close>

definition ISNILS :: "src \<Rightarrow> expr \<Rightarrow> expr" where
  "ISNILS VARIABLE DEFAULT_VALUE =
     Binary (Unary ''if'' (Paren (Unary ''isNil'' (StrD VARIABLE)))) ''then''
       (Block [Assign VARIABLE DEFAULT_VALUE])"

text \<open>
  Lines 638-645. \<^verbatim>\<open>ARG_7\<close> hands eight arguments to \<^verbatim>\<open>ARG_6\<close>, which has
  seven parameters, and \<^verbatim>\<open>ARG_8\<close> hands nine to \<^verbatim>\<open>ARG_7\<close>; so these macros
  take their arguments as a list, and the binding of arguments to parameters is explicit.
  What a preprocessor does with surplus arguments is not the header's to say: it either
  refuses the invocation or drops the surplus, and both are modelled.
\<close>

datatype arity_policy = Refuse | Drop_Surplus

definition bind_args :: "arity_policy \<Rightarrow> nat \<Rightarrow> expr list \<Rightarrow> expr list option" where
  "bind_args pol k args =
     (if length args = k then Some args
      else if pol = Drop_Surplus \<and> k < length args then Some (take k args)
      else None)"

definition ARG_1 :: "arity_policy \<Rightarrow> expr list \<Rightarrow> expr option" where
  "ARG_1 pol args =
     (case bind_args pol 2 args of
        Some [A, B] \<Rightarrow> Some (Paren (Binary (Paren A) ''select'' (Paren B)))
      | _ \<Rightarrow> None)"

definition ARG_2 :: "arity_policy \<Rightarrow> expr list \<Rightarrow> expr option" where
  "ARG_2 pol args =
     (case bind_args pol 3 args of
        Some [A, B, C] \<Rightarrow>
          do { i \<leftarrow> ARG_1 pol [A, B]; r \<leftarrow> ARG_1 pol [i, C]; Some (Paren r) }
      | _ \<Rightarrow> None)"

definition ARG_3 :: "arity_policy \<Rightarrow> expr list \<Rightarrow> expr option" where
  "ARG_3 pol args =
     (case bind_args pol 4 args of
        Some [A, B, C, D] \<Rightarrow>
          do { i \<leftarrow> ARG_2 pol [A, B, C]; r \<leftarrow> ARG_1 pol [i, D]; Some (Paren r) }
      | _ \<Rightarrow> None)"

definition ARG_4 :: "arity_policy \<Rightarrow> expr list \<Rightarrow> expr option" where
  "ARG_4 pol args =
     (case bind_args pol 5 args of
        Some [A, B, C, D, E'] \<Rightarrow>
          do { i \<leftarrow> ARG_3 pol [A, B, C, D]; r \<leftarrow> ARG_1 pol [i, E']; Some (Paren r) }
      | _ \<Rightarrow> None)"

definition ARG_5 :: "arity_policy \<Rightarrow> expr list \<Rightarrow> expr option" where
  "ARG_5 pol args =
     (case bind_args pol 6 args of
        Some [A, B, C, D, E', F] \<Rightarrow>
          do { i \<leftarrow> ARG_4 pol [A, B, C, D, E']; r \<leftarrow> ARG_1 pol [i, F]; Some (Paren r) }
      | _ \<Rightarrow> None)"

definition ARG_6 :: "arity_policy \<Rightarrow> expr list \<Rightarrow> expr option" where
  "ARG_6 pol args =
     (case bind_args pol 7 args of
        Some [A, B, C, D, E', F, G] \<Rightarrow>
          do { i \<leftarrow> ARG_5 pol [A, B, C, D, E', F]; r \<leftarrow> ARG_1 pol [i, G]; Some (Paren r) }
      | _ \<Rightarrow> None)"

definition ARG_7 :: "arity_policy \<Rightarrow> expr list \<Rightarrow> expr option" where
  "ARG_7 pol args =
     (case bind_args pol 8 args of
        Some [A, B, C, D, E', F, G, H] \<Rightarrow>
          do { i \<leftarrow> ARG_6 pol [A, B, C, D, E', E', F, G]; r \<leftarrow> ARG_1 pol [i, H];
               Some (Paren r) }
      | _ \<Rightarrow> None)"

definition ARG_8 :: "arity_policy \<Rightarrow> expr list \<Rightarrow> expr option" where
  "ARG_8 pol args =
     (case bind_args pol 9 args of
        Some [A, B, C, D, E', F, G, H, I] \<Rightarrow>
          do { i \<leftarrow> ARG_7 pol [A, B, C, D, E', E', F, G, H]; r \<leftarrow> ARG_1 pol [i, I];
               Some (Paren r) }
      | _ \<Rightarrow> None)"

section \<open>Type-checking macros\<close>

text \<open>Lines 680-698.\<close>

definition is_type :: "expr \<Rightarrow> string \<Rightarrow> expr" where
  "is_type VAR name = Paren (Binary (Paren (Unary ''typeName'' (Paren VAR))) ''=='' (StrD name))"

definition IS_ARRAY :: "expr \<Rightarrow> expr" where "IS_ARRAY VAR = is_type VAR ''ARRAY''"
definition IS_BOOL :: "expr \<Rightarrow> expr" where "IS_BOOL VAR = is_type VAR ''BOOL''"
definition IS_CODE :: "expr \<Rightarrow> expr" where "IS_CODE VAR = is_type VAR ''CODE''"
definition IS_CONFIG :: "expr \<Rightarrow> expr" where "IS_CONFIG VAR = is_type VAR ''CONFIG''"
definition IS_CONTROL :: "expr \<Rightarrow> expr" where "IS_CONTROL VAR = is_type VAR ''CONTROL''"
definition IS_DISPLAY :: "expr \<Rightarrow> expr" where "IS_DISPLAY VAR = is_type VAR ''DISPLAY''"
definition IS_GROUP :: "expr \<Rightarrow> expr" where "IS_GROUP VAR = is_type VAR ''GROUP''"
definition IS_OBJECT :: "expr \<Rightarrow> expr" where "IS_OBJECT VAR = is_type VAR ''OBJECT''"
definition IS_SCALAR :: "expr \<Rightarrow> expr" where "IS_SCALAR VAR = is_type VAR ''SCALAR''"
definition IS_SCRIPT :: "expr \<Rightarrow> expr" where "IS_SCRIPT VAR = is_type VAR ''SCRIPT''"
definition IS_SIDE :: "expr \<Rightarrow> expr" where "IS_SIDE VAR = is_type VAR ''SIDE''"
definition IS_STRING :: "expr \<Rightarrow> expr" where "IS_STRING VAR = is_type VAR ''STRING''"
definition IS_TEXT :: "expr \<Rightarrow> expr" where "IS_TEXT VAR = is_type VAR ''TEXT''"
definition IS_LOCATION :: "expr \<Rightarrow> expr" where "IS_LOCATION VAR = is_type VAR ''LOCATION''"

definition IS_BOOLEAN :: "expr \<Rightarrow> expr" where "IS_BOOLEAN VAR = IS_BOOL VAR"
definition IS_FUNCTION :: "expr \<Rightarrow> expr" where "IS_FUNCTION VAR = IS_CODE VAR"
definition IS_NUMBER :: "expr \<Rightarrow> expr" where "IS_NUMBER VAR = IS_SCALAR VAR"

text \<open>
  Line 697: the condition of \<^verbatim>\<open>IS_INTEGER\<close> is written in braces, which makes it a
  code block.
\<close>

definition IS_INTEGER :: "expr \<Rightarrow> expr" where
  "IS_INTEGER VAR =
     Binary (Unary ''if'' (Block [Eval (IS_SCALAR VAR)])) ''then''
       (Binary (Block [Eval (Paren (Binary (Unary ''floor'' (Paren VAR)) ''=='' (Paren VAR)))])
          ''else'' (Block [Eval (Ident ''false'')]))"

section \<open>Parameter macros\<close>

text \<open>Lines 745-764: each \<^verbatim>\<open>EXPLODE_n\<close> is its predecessor and one more assignment.\<close>

definition EXPLODE_2 :: "expr \<Rightarrow> src \<Rightarrow> src \<Rightarrow> stmt list" where
  "EXPLODE_2 ARRAY A B =
     [Assign A (Binary (Paren ARRAY) ''select'' (Num 0)),
      Assign B (Binary (Paren ARRAY) ''select'' (Num 1))]"

definition EXPLODE_3 :: "expr \<Rightarrow> src \<Rightarrow> src \<Rightarrow> src \<Rightarrow> stmt list" where
  "EXPLODE_3 ARRAY A B C =
     EXPLODE_2 ARRAY A B @ [Assign C (Binary (Paren ARRAY) ''select'' (Num 2))]"

definition EXPLODE_4 :: "expr \<Rightarrow> src \<Rightarrow> src \<Rightarrow> src \<Rightarrow> src \<Rightarrow> stmt list" where
  "EXPLODE_4 ARRAY A B C D =
     EXPLODE_3 ARRAY A B C @ [Assign D (Binary (Paren ARRAY) ''select'' (Num 3))]"

definition EXPLODE_5 :: "expr \<Rightarrow> src \<Rightarrow> src \<Rightarrow> src \<Rightarrow> src \<Rightarrow> src \<Rightarrow> stmt list" where
  "EXPLODE_5 ARRAY A B C D E' =
     EXPLODE_4 ARRAY A B C D @ [Assign E' (Binary (Paren ARRAY) ''select'' (Num 4))]"

definition EXPLODE_6 :: "expr \<Rightarrow> src \<Rightarrow> src \<Rightarrow> src \<Rightarrow> src \<Rightarrow> src \<Rightarrow> src \<Rightarrow> stmt list" where
  "EXPLODE_6 ARRAY A B C D E' F =
     EXPLODE_5 ARRAY A B C D E' @ [Assign F (Binary (Paren ARRAY) ''select'' (Num 5))]"

definition EXPLODE_7 ::
  "expr \<Rightarrow> src \<Rightarrow> src \<Rightarrow> src \<Rightarrow> src \<Rightarrow> src \<Rightarrow> src \<Rightarrow> src \<Rightarrow> stmt list" where
  "EXPLODE_7 ARRAY A B C D E' F G =
     EXPLODE_6 ARRAY A B C D E' F @ [Assign G (Binary (Paren ARRAY) ''select'' (Num 6))]"

definition EXPLODE_8 ::
  "expr \<Rightarrow> src \<Rightarrow> src \<Rightarrow> src \<Rightarrow> src \<Rightarrow> src \<Rightarrow> src \<Rightarrow> src \<Rightarrow> src \<Rightarrow> stmt list" where
  "EXPLODE_8 ARRAY A B C D E' F G H =
     EXPLODE_7 ARRAY A B C D E' F G @ [Assign H (Binary (Paren ARRAY) ''select'' (Num 7))]"


section \<open>Deprecation macros\<close>

text \<open>
  Lines 1003-1007, 1031-1032 and 1056-1060. The parameters inside the single-quoted
  message are replaced by the argument texts, and \<^verbatim>\<open>ADDON\<close> by its expansion.
  The code to call is pasted behind \<^verbatim>\<open>call\<close> and behind
  \<^verbatim>\<open>_this call\<close> without parentheses of its own. In the code block of the old
  function, a semicolon follows the \<^verbatim>\<open>WARNING\<close> and another the forwarding
  statement.
\<close>

definition forward_this :: "expr \<Rightarrow> expr" where
  "forward_this target =
     Binary (Unary ''if'' (Paren (Unary ''isNil'' (StrD ''_this'')))) ''then''
       (Binary (Block [Eval (paste_unary ''call'' target)]) ''else''
          (Block [Eval (paste_right (Ident ''_this'') ''call'' target)]))"

definition DEPRECATE_SYS :: "macro_table \<Rightarrow> site \<Rightarrow> src \<Rightarrow> src \<Rightarrow> stmt list" where
  "DEPRECATE_SYS e p OLD_FUNCTION NEW_FUNCTION =
     [Assign OLD_FUNCTION
        (Block
           (statement
              (WARNING e p
                 (StrS (''Deprecated function used: '' @ OLD_FUNCTION @ '' (new: ''
                          @ NEW_FUNCTION @ '') in '' @ ADDON e)))
            @ [Eval (forward_this (Ident NEW_FUNCTION)), Empty]))]"

definition DEPRECATE :: "macro_table \<Rightarrow> site \<Rightarrow> src \<Rightarrow> src \<Rightarrow> stmt list" where
  "DEPRECATE e p OLD_FUNCTION NEW_FUNCTION =
     DEPRECATE_SYS e p (DOUBLES (PREFIX e) OLD_FUNCTION) (DOUBLES (PREFIX e) NEW_FUNCTION)"

definition OBSOLETE_SYS :: "macro_table \<Rightarrow> site \<Rightarrow> src \<Rightarrow> expr \<Rightarrow> stmt list" where
  "OBSOLETE_SYS e p OLD_FUNCTION COMMAND_CODE =
     [Assign OLD_FUNCTION
        (Block
           (statement
              (WARNING e p
                 (StrS (''Obsolete function used: (use: '' @ OLD_FUNCTION @ '') in ''
                          @ ADDON e)))
            @ [Eval (forward_this COMMAND_CODE), Empty]))]"

section \<open>Notions used to state the results\<close>

text \<open>
  An expansion is a call of the library function \<open>f\<close> when, empty statements aside,
  it is the one statement \<^verbatim>\<open>x call f\<close>.
\<close>

definition is_call_of :: "string \<Rightarrow> stmt list \<Rightarrow> bool" where
  "is_call_of f l =
     (case filter (\<lambda>c. c \<noteq> Empty) l of
        [Eval (Binary x op (Ident g))] \<Rightarrow> op = ''call'' \<and> g = f
      | _ \<Rightarrow> False)"

text \<open>Indexing a value by a list of indices, one \<^verbatim>\<open>select\<close> after the other.\<close>

fun index_path :: "val \<Rightarrow> val list \<Rightarrow> err + val" where
  "index_path x [] = Inr x"
| "index_path x (i # is) =
     (case binary_op ''select'' x i of Inl e \<Rightarrow> Inl e | Inr y \<Rightarrow> index_path y is)"

text \<open>The macro \<^verbatim>\<open>ARG_k\<close>, by its number.\<close>

definition ARG :: "nat \<Rightarrow> arity_policy \<Rightarrow> expr list \<Rightarrow> expr option" where
  "ARG k pol args =
     (if k = 1 then ARG_1 pol args else if k = 2 then ARG_2 pol args
      else if k = 3 then ARG_3 pol args else if k = 4 then ARG_4 pol args
      else if k = 5 then ARG_5 pol args else if k = 6 then ARG_6 pol args
      else if k = 7 then ARG_7 pol args else if k = 8 then ARG_8 pol args
      else None)"

text \<open>The engine's type names are written in capital letters.\<close>

definition upper_letters :: "char set" where
  "upper_letters = set ''ABCDEFGHIJKLMNOPQRSTUVWXYZ''"

text \<open>
  A concrete engine and a concrete start state, for evaluating the macros on examples: the
  formatter returns its format string, no variable is defined, there is one empty scope
  and the log is empty.
\<close>

definition plain_engine :: engine where
  "plain_engine = \<lparr>format_text = (\<lambda>t args. t)\<rparr>"

definition empty_state :: state where
  "empty_state = \<lparr>globals = (\<lambda>x. VNil), frames = [Map.empty], rpt = []\<rparr>"

text \<open>
  The macro \<^verbatim>\<open>EXPLODE_k\<close>, by the number of variables it is given, and the
  statement each of them adds: the assignment of one element of the array.
\<close>

definition EXPLODE :: "expr \<Rightarrow> src list \<Rightarrow> stmt list option" where
  "EXPLODE ARRAY names =
     (case names of
        [A, B] \<Rightarrow> Some (EXPLODE_2 ARRAY A B)
      | [A, B, C] \<Rightarrow> Some (EXPLODE_3 ARRAY A B C)
      | [A, B, C, D] \<Rightarrow> Some (EXPLODE_4 ARRAY A B C D)
      | [A, B, C, D, E'] \<Rightarrow> Some (EXPLODE_5 ARRAY A B C D E')
      | [A, B, C, D, E', F] \<Rightarrow> Some (EXPLODE_6 ARRAY A B C D E' F)
      | [A, B, C, D, E', F, G] \<Rightarrow> Some (EXPLODE_7 ARRAY A B C D E' F G)
      | [A, B, C, D, E', F, G, H] \<Rightarrow> Some (EXPLODE_8 ARRAY A B C D E' F G H)
      | _ \<Rightarrow> None)"

definition select_stmt :: "expr \<Rightarrow> src \<times> nat \<Rightarrow> stmt" where
  "select_stmt ARRAY = (\<lambda>(A, k). Assign A (Binary (Paren ARRAY) ''select'' (Num k)))"



text \<open>The value of \<^verbatim>\<open>THIS_FILE_\<close> at a site.\<close>

definition file_value :: "macro_table \<Rightarrow> site \<Rightarrow> val" where
  "file_value e p = VString (case def_THIS_FILE e of Some t \<Rightarrow> t | None \<Rightarrow> site_file p)"

text \<open>
  Two tables with \<^verbatim>\<open>PREFIX\<close> and \<^verbatim>\<open>COMPONENT\<close> and nothing else, a site,
  and a state in which a function has been called with a one-element array.
\<close>

definition demo_table :: macro_table where
  "demo_table = \<lparr>def_PREFIX = Some ''cba'', def_COMPONENT = Some ''main'',
     def_MAINPREFIX = None, def_SUBPREFIX = None, def_MAINLOGIC = None, def_VERSION = None,
     def_VERSION_AR = None, def_VERSION_CONFIG = None, def_DEBUG_SETTINGS = None,
     def_THIS_FILE = None, def_MODULAR = False,
     def_DEBUG_MODE_FULL = False, def_DEBUG_MODE_NORMAL = False,
     def_DEBUG_MODE_MINIMAL = False\<rparr>"

definition menu_table :: macro_table where
  "menu_table = demo_table\<lparr>def_PREFIX := Some ''six'', def_COMPONENT := Some ''sys_menu''\<rparr>"

definition demo_site :: site where
  "demo_site = \<lparr>site_file = ''fnc_frog.sqf'', site_line = 12\<rparr>"


definition nested_array :: val where
  "nested_array =
     VArray [VArray [VArray [VArray [VArray
       [VArray [VScalar 9, VArray [VScalar 7]], VArray [VArray [VScalar 5]]]]]]]"

definition nested_state :: state where
  "nested_state = \<lparr>globals = (\<lambda>x. VNil), frames = [[''_x'' \<mapsto> nested_array]], rpt = []\<rparr>"


text \<open>
  Notions for comparing two runs of the same code. In the first run a block of \<open>m\<close>
  adjacent scopes sits below \<open>k\<close> inner scopes; in the second run the block is one
  scope, the \<open>merge\<close> of the block, in which each variable has the value that the block
  gives it (that of the innermost scope of the block that declares it). Two states are
  \<open>related\<close> when they differ in this way and by the tail of the log only; \<open>sim_res\<close>
  lifts this to outcomes.
\<close>

fun merge :: "frame list \<Rightarrow> frame" where
  "merge [] = Map.empty"
| "merge (F # Fs) = merge Fs ++ F"

definition related ::
  "nat \<Rightarrow> (library_fn \<times> val) list \<Rightarrow> (library_fn \<times> val) list \<Rightarrow> nat
     \<Rightarrow> state \<Rightarrow> state \<Rightarrow> bool" where
  "related m t1 t2 k s1 s2 =
     (globals s1 = globals s2
      \<and> (\<exists>pre block post. length pre = k \<and> length block = m \<and> block \<noteq> []
            \<and> frames s1 = pre @ block @ post \<and> frames s2 = pre @ merge block # post)
      \<and> (\<exists>l. rpt s1 = l @ t1 \<and> rpt s2 = l @ t2))"

definition sim_res ::
  "nat \<Rightarrow> (library_fn \<times> val) list \<Rightarrow> (library_fn \<times> val) list \<Rightarrow> nat
     \<Rightarrow> err + 'a \<times> state \<Rightarrow> err + 'a \<times> state \<Rightarrow> bool" where
  "sim_res m t1 t2 k r1 r2 =
     (case r1 of
        Inl x \<Rightarrow> r2 = Inl x
      | Inr (v, s1') \<Rightarrow> (\<exists>s2'. r2 = Inr (v, s2') \<and> related m t1 t2 k s1' s2'))"

text \<open>The scope that a call opens: it holds \<^verbatim>\<open>_this\<close> when an argument is passed.\<close>

definition arg_frame :: "val option \<Rightarrow> frame" where
  "arg_frame arg = (case arg of None \<Rightarrow> Map.empty | Some v \<Rightarrow> [''_this'' \<mapsto> v])"

text \<open>
  What a \<^verbatim>\<open>WARNING(msg)\<close> at site \<open>p\<close> adds to the log: one entry when
  \<^verbatim>\<open>DEBUG_MODE_NORMAL\<close> is defined, none otherwise.
\<close>

definition warning_entries :: "macro_table \<Rightarrow> site \<Rightarrow> string \<Rightarrow> (library_fn \<times> val) list" where
  "warning_entries e p msg =
     (if def_DEBUG_MODE_NORMAL e
      then [(CBA_fnc_log,
             VArray [file_value e p, VScalar (of_nat (site_line p)),
                     VString (''WARNING: '' @ msg)])]
      else [])"

text \<open>
  A call passes an argument, or no argument from a scope in which \<^verbatim>\<open>_this\<close> is
  nil. What the forwarding code hands on is the argument, or nothing when the argument is
  nil.
\<close>

definition call_arg_ok :: "val option \<Rightarrow> state \<Rightarrow> bool" where
  "call_arg_ok arg s = (case arg of Some x \<Rightarrow> True | None \<Rightarrow> get_var ''_this'' s = VNil)"

definition passed_on :: "val option \<Rightarrow> val option" where
  "passed_on arg = (case arg of Some x \<Rightarrow> if x = VNil then None else Some x | None \<Rightarrow> None)"

text \<open>
  Two outcomes agree up to the log: both fail with the same error, or both return the same
  value and states with the same variables and scopes, the log of the first holding the
  entries \<open>extra\<close> in addition, at the place where the logs started from \<open>base\<close>.
\<close>

definition same_but_log ::
  "(library_fn \<times> val) list \<Rightarrow> (library_fn \<times> val) list
     \<Rightarrow> err + val \<times> state \<Rightarrow> err + val \<times> state \<Rightarrow> bool" where
  "same_but_log extra base r_old r_new =
     (case r_new of
        Inl x \<Rightarrow> r_old = Inl x
      | Inr (v, t) \<Rightarrow>
          (\<exists>u l. r_old = Inr (v, u) \<and> globals u = globals t \<and> frames u = frames t
             \<and> rpt u = l @ extra @ base \<and> rpt t = l @ base))"

text \<open>The messages of lines 1005 and 1058.\<close>

definition deprecate_message :: "macro_table \<Rightarrow> src \<Rightarrow> src \<Rightarrow> string" where
  "deprecate_message e OLD_FUNCTION NEW_FUNCTION =
     ''Deprecated function used: '' @ OLD_FUNCTION @ '' (new: '' @ NEW_FUNCTION @ '') in ''
       @ ADDON e"

definition obsolete_message :: "macro_table \<Rightarrow> src \<Rightarrow> string" where
  "obsolete_message e OLD_FUNCTION =
     ''Obsolete function used: (use: '' @ OLD_FUNCTION @ '') in '' @ ADDON e"

text \<open>
  A table that defines \<^verbatim>\<open>DEBUG_MODE_MINIMAL\<close> only, and a state in which the library
  is loaded and \<^verbatim>\<open>CBA_fnc_fish\<close> is the function that returns its argument.
\<close>

definition minimal_table :: macro_table where
  "minimal_table = demo_table\<lparr>def_DEBUG_MODE_MINIMAL := True\<rparr>"

definition fish_state :: state where
  "fish_state =
     \<lparr>globals = (\<lambda>x. VNil)(''CBA_fnc_log'' := VLib CBA_fnc_log,
                  ''CBA_fnc_fish'' := VCode [Eval (Ident ''_this'')]),
      frames = [Map.empty], rpt = []\<rparr>"

section \<open>Naming and path macros: results\<close>

lemma default_MAINPREFIX_fields:
  "def_PREFIX (default_MAINPREFIX d) = def_PREFIX d"
  "def_COMPONENT (default_MAINPREFIX d) = def_COMPONENT d"
  "def_MODULAR (default_MAINPREFIX d) = def_MODULAR d"
  "def_THIS_FILE (default_MAINPREFIX d) = def_THIS_FILE d"
  "def_MAINPREFIX (default_MAINPREFIX d) = Some (case def_MAINPREFIX d of None \<Rightarrow> ''x'' | Some m \<Rightarrow> m)"
  "def_SUBPREFIX (default_MAINPREFIX d) = def_SUBPREFIX d"
  "def_DEBUG_MODE_FULL (default_MAINPREFIX d) = def_DEBUG_MODE_FULL d"
  "def_DEBUG_MODE_NORMAL (default_MAINPREFIX d) = def_DEBUG_MODE_NORMAL d"
  "def_DEBUG_MODE_MINIMAL (default_MAINPREFIX d) = def_DEBUG_MODE_MINIMAL d"
  by (simp_all add: default_MAINPREFIX_def split: option.splits)

lemma default_SUBPREFIX_fields:
  "def_PREFIX (default_SUBPREFIX d) = def_PREFIX d"
  "def_COMPONENT (default_SUBPREFIX d) = def_COMPONENT d"
  "def_MODULAR (default_SUBPREFIX d) = def_MODULAR d"
  "def_THIS_FILE (default_SUBPREFIX d) = def_THIS_FILE d"
  "def_MAINPREFIX (default_SUBPREFIX d) = def_MAINPREFIX d"
  "def_SUBPREFIX (default_SUBPREFIX d) = Some (case def_SUBPREFIX d of None \<Rightarrow> ''addons'' | Some m \<Rightarrow> m)"
  "def_DEBUG_MODE_FULL (default_SUBPREFIX d) = def_DEBUG_MODE_FULL d"
  "def_DEBUG_MODE_NORMAL (default_SUBPREFIX d) = def_DEBUG_MODE_NORMAL d"
  "def_DEBUG_MODE_MINIMAL (default_SUBPREFIX d) = def_DEBUG_MODE_MINIMAL d"
  by (simp_all add: default_SUBPREFIX_def split: option.splits)

lemma default_MAINLOGIC_fields:
  "def_PREFIX (default_MAINLOGIC d) = def_PREFIX d"
  "def_COMPONENT (default_MAINLOGIC d) = def_COMPONENT d"
  "def_MODULAR (default_MAINLOGIC d) = def_MODULAR d"
  "def_THIS_FILE (default_MAINLOGIC d) = def_THIS_FILE d"
  "def_MAINPREFIX (default_MAINLOGIC d) = def_MAINPREFIX d"
  "def_SUBPREFIX (default_MAINLOGIC d) = def_SUBPREFIX d"
  "def_DEBUG_MODE_FULL (default_MAINLOGIC d) = def_DEBUG_MODE_FULL d"
  "def_DEBUG_MODE_NORMAL (default_MAINLOGIC d) = def_DEBUG_MODE_NORMAL d"
  "def_DEBUG_MODE_MINIMAL (default_MAINLOGIC d) = def_DEBUG_MODE_MINIMAL d"
  by (simp_all add: default_MAINLOGIC_def split: option.splits)

lemma default_VERSION_fields:
  "def_PREFIX (default_VERSION d) = def_PREFIX d"
  "def_COMPONENT (default_VERSION d) = def_COMPONENT d"
  "def_MODULAR (default_VERSION d) = def_MODULAR d"
  "def_THIS_FILE (default_VERSION d) = def_THIS_FILE d"
  "def_MAINPREFIX (default_VERSION d) = def_MAINPREFIX d"
  "def_SUBPREFIX (default_VERSION d) = def_SUBPREFIX d"
  "def_DEBUG_MODE_FULL (default_VERSION d) = def_DEBUG_MODE_FULL d"
  "def_DEBUG_MODE_NORMAL (default_VERSION d) = def_DEBUG_MODE_NORMAL d"
  "def_DEBUG_MODE_MINIMAL (default_VERSION d) = def_DEBUG_MODE_MINIMAL d"
  by (simp_all add: default_VERSION_def split: option.splits)

lemma default_VERSION_AR_fields:
  "def_PREFIX (default_VERSION_AR d) = def_PREFIX d"
  "def_COMPONENT (default_VERSION_AR d) = def_COMPONENT d"
  "def_MODULAR (default_VERSION_AR d) = def_MODULAR d"
  "def_THIS_FILE (default_VERSION_AR d) = def_THIS_FILE d"
  "def_MAINPREFIX (default_VERSION_AR d) = def_MAINPREFIX d"
  "def_SUBPREFIX (default_VERSION_AR d) = def_SUBPREFIX d"
  "def_DEBUG_MODE_FULL (default_VERSION_AR d) = def_DEBUG_MODE_FULL d"
  "def_DEBUG_MODE_NORMAL (default_VERSION_AR d) = def_DEBUG_MODE_NORMAL d"
  "def_DEBUG_MODE_MINIMAL (default_VERSION_AR d) = def_DEBUG_MODE_MINIMAL d"
  by (simp_all add: default_VERSION_AR_def split: option.splits)

lemma default_VERSION_CONFIG_fields:
  "def_PREFIX (default_VERSION_CONFIG d) = def_PREFIX d"
  "def_COMPONENT (default_VERSION_CONFIG d) = def_COMPONENT d"
  "def_MODULAR (default_VERSION_CONFIG d) = def_MODULAR d"
  "def_THIS_FILE (default_VERSION_CONFIG d) = def_THIS_FILE d"
  "def_MAINPREFIX (default_VERSION_CONFIG d) = def_MAINPREFIX d"
  "def_SUBPREFIX (default_VERSION_CONFIG d) = def_SUBPREFIX d"
  "def_DEBUG_MODE_FULL (default_VERSION_CONFIG d) = def_DEBUG_MODE_FULL d"
  "def_DEBUG_MODE_NORMAL (default_VERSION_CONFIG d) = def_DEBUG_MODE_NORMAL d"
  "def_DEBUG_MODE_MINIMAL (default_VERSION_CONFIG d) = def_DEBUG_MODE_MINIMAL d"
  by (simp_all add: default_VERSION_CONFIG_def split: option.splits)

lemma full_enables_normal_fields:
  "def_PREFIX (full_enables_normal d) = def_PREFIX d"
  "def_COMPONENT (full_enables_normal d) = def_COMPONENT d"
  "def_MODULAR (full_enables_normal d) = def_MODULAR d"
  "def_THIS_FILE (full_enables_normal d) = def_THIS_FILE d"
  "def_MAINPREFIX (full_enables_normal d) = def_MAINPREFIX d"
  "def_SUBPREFIX (full_enables_normal d) = def_SUBPREFIX d"
  "def_DEBUG_MODE_FULL (full_enables_normal d) = def_DEBUG_MODE_FULL d"
  "def_DEBUG_MODE_NORMAL (full_enables_normal d) = (def_DEBUG_MODE_FULL d \<or> def_DEBUG_MODE_NORMAL d)"
  "def_DEBUG_MODE_MINIMAL (full_enables_normal d) = def_DEBUG_MODE_MINIMAL d"
  by (simp_all add: full_enables_normal_def split: option.splits)

lemma normal_enables_minimal_fields:
  "def_PREFIX (normal_enables_minimal d) = def_PREFIX d"
  "def_COMPONENT (normal_enables_minimal d) = def_COMPONENT d"
  "def_MODULAR (normal_enables_minimal d) = def_MODULAR d"
  "def_THIS_FILE (normal_enables_minimal d) = def_THIS_FILE d"
  "def_MAINPREFIX (normal_enables_minimal d) = def_MAINPREFIX d"
  "def_SUBPREFIX (normal_enables_minimal d) = def_SUBPREFIX d"
  "def_DEBUG_MODE_FULL (normal_enables_minimal d) = def_DEBUG_MODE_FULL d"
  "def_DEBUG_MODE_NORMAL (normal_enables_minimal d) = def_DEBUG_MODE_NORMAL d"
  "def_DEBUG_MODE_MINIMAL (normal_enables_minimal d) = (def_DEBUG_MODE_NORMAL d \<or> def_DEBUG_MODE_MINIMAL d)"
  by (simp_all add: normal_enables_minimal_def split: option.splits)

lemma no_mode_is_normal_fields:
  "def_PREFIX (no_mode_is_normal d) = def_PREFIX d"
  "def_COMPONENT (no_mode_is_normal d) = def_COMPONENT d"
  "def_MODULAR (no_mode_is_normal d) = def_MODULAR d"
  "def_THIS_FILE (no_mode_is_normal d) = def_THIS_FILE d"
  "def_MAINPREFIX (no_mode_is_normal d) = def_MAINPREFIX d"
  "def_SUBPREFIX (no_mode_is_normal d) = def_SUBPREFIX d"
  "def_DEBUG_MODE_FULL (no_mode_is_normal d) = def_DEBUG_MODE_FULL d"
  "def_DEBUG_MODE_NORMAL (no_mode_is_normal d) = (def_DEBUG_MODE_NORMAL d \<or> \<not> def_DEBUG_MODE_MINIMAL d)"
  "def_DEBUG_MODE_MINIMAL (no_mode_is_normal d) = True"
  by (simp_all add: no_mode_is_normal_def split: option.splits)

lemma default_DEBUG_SETTINGS_fields:
  "def_PREFIX (default_DEBUG_SETTINGS d) = def_PREFIX d"
  "def_COMPONENT (default_DEBUG_SETTINGS d) = def_COMPONENT d"
  "def_MODULAR (default_DEBUG_SETTINGS d) = def_MODULAR d"
  "def_THIS_FILE (default_DEBUG_SETTINGS d) = def_THIS_FILE d"
  "def_MAINPREFIX (default_DEBUG_SETTINGS d) = def_MAINPREFIX d"
  "def_SUBPREFIX (default_DEBUG_SETTINGS d) = def_SUBPREFIX d"
  "def_DEBUG_MODE_FULL (default_DEBUG_SETTINGS d) = def_DEBUG_MODE_FULL d"
  "def_DEBUG_MODE_NORMAL (default_DEBUG_SETTINGS d) = def_DEBUG_MODE_NORMAL d"
  "def_DEBUG_MODE_MINIMAL (default_DEBUG_SETTINGS d) = def_DEBUG_MODE_MINIMAL d"
  by (simp_all add: default_DEBUG_SETTINGS_def split: option.splits)

lemmas header_fields =
  default_MAINPREFIX_fields default_SUBPREFIX_fields default_MAINLOGIC_fields
  default_VERSION_fields default_VERSION_AR_fields default_VERSION_CONFIG_fields
  full_enables_normal_fields normal_enables_minimal_fields no_mode_is_normal_fields
  default_DEBUG_SETTINGS_fields

lemmas include_header_defs =
  include_header_def default_DEBUG_SETTINGS_def no_mode_is_normal_def
  normal_enables_minimal_def full_enables_normal_def default_VERSION_CONFIG_def
  default_VERSION_AR_def default_VERSION_def default_MAINLOGIC_def default_SUBPREFIX_def
  default_MAINPREFIX_def

lemma include_header_modes:
  "def_DEBUG_MODE_FULL (include_header d) = def_DEBUG_MODE_FULL d"
  "def_DEBUG_MODE_NORMAL (include_header d) =
     (def_DEBUG_MODE_FULL d \<or> def_DEBUG_MODE_NORMAL d \<or> \<not> def_DEBUG_MODE_MINIMAL d)"
  "def_DEBUG_MODE_MINIMAL (include_header d)"
  "def_THIS_FILE (include_header d) = def_THIS_FILE d"
  by (auto simp: include_header_def header_fields)

lemma include_header_names:
  "def_PREFIX (include_header d) = def_PREFIX d"
  "def_COMPONENT (include_header d) = def_COMPONENT d"
  "def_MODULAR (include_header d) = def_MODULAR d"
  "def_MAINPREFIX (include_header d) =
     Some (case def_MAINPREFIX d of None \<Rightarrow> ''x'' | Some m \<Rightarrow> m)"
  "def_SUBPREFIX (include_header d) =
     Some (case def_SUBPREFIX d of None \<Rightarrow> ''addons'' | Some m \<Rightarrow> m)"
  by (simp_all add: include_header_def header_fields)

text \<open>A name is one token, which the preprocessor replaces when it names a macro.\<close>

lemma split_tokens_names:
  "list_all ident_char t \<Longrightarrow>
   split_tokens False acc t = (if acc = [] \<and> t = [] then [] else [rev acc @ t])"
proof (induction t arbitrary: acc)
  case Nil
  then show ?case by simp
next
  case (Cons c t)
  then have "c \<noteq> CHR 0x22" by (auto simp: ident_char_def)
  with Cons show ?case by simp
qed

lemma argument_name:
  assumes "is_token n"
  shows "argument e p n = (case object_like e p n of Some body \<Rightarrow> body | None \<Rightarrow> n)"
  using assms split_tokens_names [of n "[]"]
  by (simp add: argument_def replace_token_def is_token_def)

text \<open>
  C2, as the header has it. Let \<^verbatim>\<open>PREFIX\<close> stand for \<open>p\<close> and
  \<^verbatim>\<open>COMPONENT\<close> for \<open>c\<close>, and let none of the texts \<open>p\<close>, \<open>c\<close> and \<open>n\<close> hold
  the name of a macro (the preprocessor leaves each of them as it is). Then the naming
  macros glue with underscores: \<^verbatim>\<open>FUNC(n)\<close> is \<^verbatim>\<open>p_c_fnc_n\<close>,
  \<^verbatim>\<open>GVAR(n)\<close> is \<^verbatim>\<open>p_c_n\<close> and \<^verbatim>\<open>GVARMAIN(n)\<close> is \<^verbatim>\<open>p_n\<close>; when
  \<open>p\<close>, \<open>c\<close> and \<open>n\<close> are identifiers, each result is one token.
\<close>

theorem naming_macros_concatenate:
  assumes "def_PREFIX d = Some p" and "def_COMPONENT d = Some c"
    and "e = include_header d"
    and "argument e q p = p" and "argument e q c = c" and "argument e q n = n"
  shows "FUNC e q n = p @ ''_'' @ c @ ''_fnc_'' @ n
       \<and> GVAR e q n = p @ ''_'' @ c @ ''_'' @ n
       \<and> GVARMAIN e q n = p @ ''_'' @ n
       \<and> (is_token p \<and> is_token c \<and> is_token n \<longrightarrow>
            is_token (FUNC e q n) \<and> is_token (GVAR e q n) \<and> is_token (GVARMAIN e q n))"
proof -
  have pc: "PREFIX e = p \<and> COMPONENT e = c"
    using assms(1-3) by (simp add: PREFIX_def COMPONENT_def include_header_names)
  have f: "FUNC e q n = p @ ''_'' @ c @ ''_fnc_'' @ n"
    by (simp add: FUNC_def TRIPLES_def DOUBLES_def pc assms(6))
  have g: "GVAR e q n = p @ ''_'' @ c @ ''_'' @ n"
    by (simp add: GVAR_def GVARS_def pc assms(6))
  have m: "GVARMAIN e q n = p @ ''_'' @ n"
    by (simp add: GVARMAIN_def GVARMAINS_def pc assms(6))
  have "is_token (FUNC e q n) \<and> is_token (GVAR e q n) \<and> is_token (GVARMAIN e q n)"
    if "is_token p" "is_token c" "is_token n"
    using that unfolding f g m by (simp add: is_token_def ident_char_def)
  with f g m show ?thesis by blast
qed

theorem naming_macros_concatenate_witness:
  "def_PREFIX demo_table = Some ''cba'' \<and> def_COMPONENT demo_table = Some ''main''
   \<and> argument (include_header demo_table) demo_site ''cba'' = ''cba''
   \<and> argument (include_header demo_table) demo_site ''main'' = ''main''
   \<and> argument (include_header demo_table) demo_site ''frog'' = ''frog''
   \<and> FUNC (include_header demo_table) demo_site ''frog'' = ''cba_main_fnc_frog''
   \<and> GVAR (include_header demo_table) demo_site ''frog'' = ''cba_main_frog''
   \<and> GVARMAIN (include_header demo_table) demo_site ''frog'' = ''cba_frog''
   \<and> is_token ''cba'' \<and> is_token ''main'' \<and> is_token ''frog''
   \<and> is_token ''cba_main_fnc_frog''"
proof -
  have t: "is_token ''cba''" "is_token ''main''" "is_token ''frog''"
    by (simp_all add: is_token_def ident_char_def)
  have a: "argument (include_header demo_table) demo_site ''cba'' = ''cba''"
    "argument (include_header demo_table) demo_site ''main'' = ''main''"
    "argument (include_header demo_table) demo_site ''frog'' = ''frog''"
    by (simp_all add: argument_name t object_like_def)
  have d: "def_PREFIX demo_table = Some ''cba''" "def_COMPONENT demo_table = Some ''main''"
    by (simp_all add: demo_table_def)
  note r = naming_macros_concatenate [OF d refl a]
  from r have f: "FUNC (include_header demo_table) demo_site ''frog'' = ''cba_main_fnc_frog''"
    by simp
  from r t have "is_token (FUNC (include_header demo_table) demo_site ''frog'')"
    by blast
  then have "is_token ''cba_main_fnc_frog''"
    by (simp only: f)
  with r t d a show ?thesis by simp
qed

text \<open>
  The claim as written promises \<^verbatim>\<open>p_c_n\<close> for every identifier \<open>n\<close>. The header
  defines \<^verbatim>\<open>VERSION\<close> as \<^verbatim>\<open>0\<close> when the including file has not defined it
  (lines 54-56), and the preprocessor expands the argument before it pastes it: with
  \<^verbatim>\<open>PREFIX\<close> \<^verbatim>\<open>cba\<close> and \<^verbatim>\<open>COMPONENT\<close> \<^verbatim>\<open>main\<close>,
  \<^verbatim>\<open>GVAR(VERSION)\<close> is \<^verbatim>\<open>cba_main_0\<close>, \<^verbatim>\<open>FUNC(VERSION)\<close> is
  \<^verbatim>\<open>cba_main_fnc_0\<close> and \<^verbatim>\<open>GVARMAIN(VERSION)\<close> is \<^verbatim>\<open>cba_0\<close>.
\<close>

theorem naming_macro_name_counterexample:
  "is_token ''VERSION''
   \<and> GVAR (include_header demo_table) demo_site ''VERSION'' = ''cba_main_0''
   \<and> GVAR (include_header demo_table) demo_site ''VERSION'' \<noteq> ''cba_main_VERSION''
   \<and> FUNC (include_header demo_table) demo_site ''VERSION'' = ''cba_main_fnc_0''
   \<and> GVARMAIN (include_header demo_table) demo_site ''VERSION'' = ''cba_0''"
proof -
  have t: "is_token ''VERSION''"
    by (simp add: is_token_def ident_char_def)
  have v: "def_VERSION (include_header demo_table) = Some ''0''"
    by (simp add: include_header_defs demo_table_def)
  have a: "argument (include_header demo_table) demo_site ''VERSION'' = ''0''"
    by (simp add: argument_name t object_like_def v)
  have pc: "PREFIX (include_header demo_table) = ''cba''"
    "COMPONENT (include_header demo_table) = ''main''"
    by (simp_all add: PREFIX_def COMPONENT_def include_header_names demo_table_def)
  show ?thesis
    by (simp add: t a pc GVAR_def GVARS_def FUNC_def TRIPLES_def DOUBLES_def GVARMAIN_def
        GVARMAINS_def)
qed

text \<open>
  C3, as the header has it. Let \<^verbatim>\<open>PREFIX\<close> stand for \<open>p\<close> and
  \<^verbatim>\<open>COMPONENT\<close> for \<open>c\<close>, and let none of the texts \<open>p\<close>, \<open>c\<close> and \<open>s\<close> hold
  the name of a macro. Then \<^verbatim>\<open>PATHTOF(s)\<close> is \<^verbatim>\<open>\MAINPREFIX\p\SUBPREFIX\c\s\<close>
  under every table. \<^verbatim>\<open>PATHTO(s)\<close> takes its component from \<^verbatim>\<open>COMPONENT_F\<close>,
  which is \<open>c\<close> only while \<^verbatim>\<open>MODULAR\<close> is undefined and \<^verbatim>\<open>c_\<close> followed by
  \<open>c\<close> once it is defined; so \<^verbatim>\<open>PATHTO(s)\<close> is
  \<^verbatim>\<open>MAINPREFIX\p\SUBPREFIX\c\s.sqf\<close> without \<^verbatim>\<open>MODULAR\<close> and
  \<^verbatim>\<open>MAINPREFIX\p\SUBPREFIX\c_c\s.sqf\<close> with it. \<^verbatim>\<open>MAINPREFIX\<close> is
  \<^verbatim>\<open>x\<close> and \<^verbatim>\<open>SUBPREFIX\<close> is \<^verbatim>\<open>addons\<close> when the including file
  has not defined them, and what it defined otherwise.
\<close>

theorem path_macros_convention:
  assumes "def_PREFIX d = Some p" and "def_COMPONENT d = Some c"
    and "e = include_header d"
    and "argument e q p = p" and "argument e q c = c" and "argument e q s = s"
  shows "PATHTOF e q s =
           [bslash] @ MAINPREFIX e @ [bslash] @ p @ [bslash] @ SUBPREFIX e @ [bslash] @ c
             @ [bslash] @ s
       \<and> PATHTO e q s =
           MAINPREFIX e @ [bslash] @ p @ [bslash] @ SUBPREFIX e @ [bslash]
             @ (if def_MODULAR d then ''c_'' @ c else c) @ [bslash] @ s @ ''.sqf''
       \<and> MAINPREFIX e = (case def_MAINPREFIX d of None \<Rightarrow> ''x'' | Some m \<Rightarrow> m)
       \<and> SUBPREFIX e = (case def_SUBPREFIX d of None \<Rightarrow> ''addons'' | Some m \<Rightarrow> m)"
proof -
  have pc: "PREFIX e = p \<and> COMPONENT e = c \<and> def_MODULAR e = def_MODULAR d"
    using assms(1-3) by (simp add: PREFIX_def COMPONENT_def include_header_names)
  have "PATHTOF e q s =
           [bslash] @ MAINPREFIX e @ [bslash] @ p @ [bslash] @ SUBPREFIX e @ [bslash] @ c
             @ [bslash] @ s"
    by (simp add: PATHTOF_def PATHTOF_SYS_def pc assms(6))
  moreover have "PATHTO e q s =
           MAINPREFIX e @ [bslash] @ p @ [bslash] @ SUBPREFIX e @ [bslash]
             @ (if def_MODULAR d then ''c_'' @ c else c) @ [bslash] @ s @ ''.sqf''"
    by (simp add: PATHTO_def PATHTO_SYS_def COMPONENT_F_def COMPONENT_C_def DOUBLES_def pc
        assms(6))
  moreover have "MAINPREFIX e = (case def_MAINPREFIX d of None \<Rightarrow> ''x'' | Some m \<Rightarrow> m)"
    by (simp add: MAINPREFIX_def assms(3) include_header_names)
  moreover have "SUBPREFIX e = (case def_SUBPREFIX d of None \<Rightarrow> ''addons'' | Some m \<Rightarrow> m)"
    by (simp add: SUBPREFIX_def assms(3) include_header_names)
  ultimately show ?thesis by blast
qed

theorem path_macros_convention_witness:
  "def_PREFIX menu_table = Some ''six'' \<and> def_COMPONENT menu_table = Some ''sys_menu''
   \<and> argument (include_header menu_table) demo_site ''six'' = ''six''
   \<and> argument (include_header menu_table) demo_site ''sys_menu'' = ''sys_menu''
   \<and> argument (include_header menu_table) demo_site ''fDate'' = ''fDate''
   \<and> PATHTO (include_header menu_table) demo_site ''fDate''
       = ''x'' @ [bslash] @ ''six'' @ [bslash] @ ''addons'' @ [bslash] @ ''sys_menu'' @ [bslash]
           @ ''fDate.sqf''
   \<and> PATHTOF (include_header menu_table) demo_site ''fDate''
       = [bslash] @ ''x'' @ [bslash] @ ''six'' @ [bslash] @ ''addons'' @ [bslash]
           @ ''sys_menu'' @ [bslash] @ ''fDate''"
proof -
  have t: "is_token ''six''" "is_token ''sys_menu''" "is_token ''fDate''"
    by (simp_all add: is_token_def ident_char_def)
  have a: "argument (include_header menu_table) demo_site ''six'' = ''six''"
    "argument (include_header menu_table) demo_site ''sys_menu'' = ''sys_menu''"
    "argument (include_header menu_table) demo_site ''fDate'' = ''fDate''"
    by (simp_all add: argument_name t object_like_def)
  have d: "def_PREFIX menu_table = Some ''six''" "def_COMPONENT menu_table = Some ''sys_menu''"
    by (simp_all add: menu_table_def demo_table_def)
  have m: "def_MAINPREFIX menu_table = None" "def_SUBPREFIX menu_table = None"
    "\<not> def_MODULAR menu_table"
    by (simp_all add: menu_table_def demo_table_def)
  from path_macros_convention [OF d refl a] d a m
  show ?thesis by simp
qed

text \<open>
  The claim as written promises \<^verbatim>\<open>x\six\addons\sys_menu\s.sqf\<close> for
  \<^verbatim>\<open>PATHTO(s)\<close> under every table with \<^verbatim>\<open>PREFIX\<close> \<^verbatim>\<open>six\<close> and
  \<^verbatim>\<open>COMPONENT\<close> \<^verbatim>\<open>sys_menu\<close>, and for every script name \<open>s\<close>. With
  \<^verbatim>\<open>MODULAR\<close> defined the component directory of \<^verbatim>\<open>PATHTO(fDate)\<close> is
  \<^verbatim>\<open>c_sys_menu\<close>; and without it \<^verbatim>\<open>PATHTO(VERSION)\<close> is
  \<^verbatim>\<open>x\six\addons\sys_menu\0.sqf\<close>, since \<^verbatim>\<open>VERSION\<close> names a macro.
\<close>

theorem path_macros_modular_counterexample:
  "PATHTO (include_header (menu_table\<lparr>def_MODULAR := True\<rparr>)) demo_site ''fDate''
     \<noteq> ''x'' @ [bslash] @ ''six'' @ [bslash] @ ''addons'' @ [bslash] @ ''sys_menu'' @ [bslash]
         @ ''fDate.sqf''
   \<and> PATHTO (include_header menu_table) demo_site ''VERSION''
     = ''x'' @ [bslash] @ ''six'' @ [bslash] @ ''addons'' @ [bslash] @ ''sys_menu'' @ [bslash]
         @ ''0.sqf''
   \<and> PATHTO (include_header menu_table) demo_site ''VERSION''
     \<noteq> ''x'' @ [bslash] @ ''six'' @ [bslash] @ ''addons'' @ [bslash] @ ''sys_menu'' @ [bslash]
         @ ''VERSION.sqf''"
proof -
  have t: "is_token ''VERSION''" "is_token ''fDate''"
    by (simp_all add: is_token_def ident_char_def)
  have v: "def_VERSION (include_header menu_table) = Some ''0''"
    by (simp add: include_header_defs menu_table_def demo_table_def)
  have a: "argument (include_header menu_table) demo_site ''VERSION'' = ''0''"
    by (simp add: argument_name t object_like_def v)
  have b: "argument (include_header (menu_table\<lparr>def_MODULAR := True\<rparr>)) demo_site ''fDate''
      = ''fDate''"
    by (simp add: argument_name t object_like_def)
  have pc: "PREFIX (include_header menu_table) = ''six''"
    "COMPONENT_F (include_header menu_table) = ''sys_menu''"
    "MAINPREFIX (include_header menu_table) = ''x''"
    "SUBPREFIX (include_header menu_table) = ''addons''"
    by (simp_all add: PREFIX_def COMPONENT_F_def COMPONENT_def MAINPREFIX_def SUBPREFIX_def
        include_header_names menu_table_def demo_table_def)
  have pm: "PREFIX (include_header (menu_table\<lparr>def_MODULAR := True\<rparr>)) = ''six''"
    "COMPONENT_F (include_header (menu_table\<lparr>def_MODULAR := True\<rparr>)) = ''c_sys_menu''"
    "MAINPREFIX (include_header (menu_table\<lparr>def_MODULAR := True\<rparr>)) = ''x''"
    "SUBPREFIX (include_header (menu_table\<lparr>def_MODULAR := True\<rparr>)) = ''addons''"
    by (simp_all add: PREFIX_def COMPONENT_F_def COMPONENT_C_def DOUBLES_def COMPONENT_def
        MAINPREFIX_def SUBPREFIX_def include_header_names menu_table_def demo_table_def)
  show ?thesis
    by (simp add: a b pc pm PATHTO_def PATHTO_SYS_def bslash_def)
qed

section \<open>Logging macros: results\<close>


text \<open>
  C8. After inclusion the debug modes are nested: \<^verbatim>\<open>DEBUG_MODE_FULL\<close> is defined only
  together with \<^verbatim>\<open>DEBUG_MODE_NORMAL\<close>, and \<^verbatim>\<open>DEBUG_MODE_NORMAL\<close> only together
  with \<^verbatim>\<open>DEBUG_MODE_MINIMAL\<close>; a file that defines none of the three gets
  \<^verbatim>\<open>DEBUG_MODE_NORMAL\<close> and \<^verbatim>\<open>DEBUG_MODE_MINIMAL\<close>. \<^verbatim>\<open>LOG\<close> and
  \<^verbatim>\<open>TRACE_1\<close> to \<^verbatim>\<open>TRACE_8\<close> are logging calls exactly when
  \<^verbatim>\<open>DEBUG_MODE_FULL\<close> is defined and nothing otherwise, \<^verbatim>\<open>WARNING\<close> is a logging
  call exactly when \<^verbatim>\<open>DEBUG_MODE_NORMAL\<close> is defined and nothing otherwise, and
  \<^verbatim>\<open>ERROR\<close> and \<^verbatim>\<open>ERROR_WITH_TITLE\<close> are error calls under every table.
\<close>

theorem debug_levels_hierarchy:
  fixes d :: macro_table
  defines "e \<equiv> include_header d"
  defines "log_call \<equiv> is_call_of ''CBA_fnc_log''"
  defines "error_call \<equiv> is_call_of ''CBA_fnc_error''"
  shows "(def_DEBUG_MODE_FULL e \<longrightarrow> def_DEBUG_MODE_NORMAL e)
       \<and> (def_DEBUG_MODE_NORMAL e \<longrightarrow> def_DEBUG_MODE_MINIMAL e)
       \<and> (def_DEBUG_MODE_FULL d \<longrightarrow> def_DEBUG_MODE_FULL e)
       \<and> (def_DEBUG_MODE_NORMAL d \<longrightarrow> def_DEBUG_MODE_NORMAL e)
       \<and> (\<not> def_DEBUG_MODE_FULL d \<and> \<not> def_DEBUG_MODE_NORMAL d \<and> \<not> def_DEBUG_MODE_MINIMAL d
            \<longrightarrow> def_DEBUG_MODE_NORMAL e \<and> def_DEBUG_MODE_MINIMAL e)
       \<and> (if def_DEBUG_MODE_FULL e
           then log_call (LOG e p M) \<and> log_call (TRACE_1 e p M A)
              \<and> log_call (TRACE_2 e p M A B) \<and> log_call (TRACE_3 e p M A B C)
              \<and> log_call (TRACE_4 e p M A B C D) \<and> log_call (TRACE_5 e p M A B C D E')
              \<and> log_call (TRACE_6 e p M A B C D E' F)
              \<and> log_call (TRACE_7 e p M A B C D E' F G)
              \<and> log_call (TRACE_8 e p M A B C D E' F G H)
           else LOG e p M = [] \<and> TRACE_1 e p M A = []
              \<and> TRACE_2 e p M A B = [] \<and> TRACE_3 e p M A B C = []
              \<and> TRACE_4 e p M A B C D = [] \<and> TRACE_5 e p M A B C D E' = []
              \<and> TRACE_6 e p M A B C D E' F = []
              \<and> TRACE_7 e p M A B C D E' F G = []
              \<and> TRACE_8 e p M A B C D E' F G H = [])
       \<and> (if def_DEBUG_MODE_NORMAL e then log_call (WARNING e p M) else WARNING e p M = [])
       \<and> error_call (ERROR e p M) \<and> error_call (ERROR_WITH_TITLE e p T M)"
proof -
  have modes: "(def_DEBUG_MODE_FULL e \<longrightarrow> def_DEBUG_MODE_NORMAL e)
       \<and> (def_DEBUG_MODE_NORMAL e \<longrightarrow> def_DEBUG_MODE_MINIMAL e)
       \<and> (def_DEBUG_MODE_FULL d \<longrightarrow> def_DEBUG_MODE_FULL e)
       \<and> (def_DEBUG_MODE_NORMAL d \<longrightarrow> def_DEBUG_MODE_NORMAL e)
       \<and> (\<not> def_DEBUG_MODE_FULL d \<and> \<not> def_DEBUG_MODE_NORMAL d \<and> \<not> def_DEBUG_MODE_MINIMAL d
            \<longrightarrow> def_DEBUG_MODE_NORMAL e \<and> def_DEBUG_MODE_MINIMAL e)"
    by (simp add: e_def include_header_modes)
  have full: "(if def_DEBUG_MODE_FULL e
           then log_call (LOG e p M) \<and> log_call (TRACE_1 e p M A)
              \<and> log_call (TRACE_2 e p M A B) \<and> log_call (TRACE_3 e p M A B C)
              \<and> log_call (TRACE_4 e p M A B C D) \<and> log_call (TRACE_5 e p M A B C D E')
              \<and> log_call (TRACE_6 e p M A B C D E' F)
              \<and> log_call (TRACE_7 e p M A B C D E' F G)
              \<and> log_call (TRACE_8 e p M A B C D E' F G H)
           else LOG e p M = [] \<and> TRACE_1 e p M A = []
              \<and> TRACE_2 e p M A B = [] \<and> TRACE_3 e p M A B C = []
              \<and> TRACE_4 e p M A B C D = [] \<and> TRACE_5 e p M A B C D E' = []
              \<and> TRACE_6 e p M A B C D E' F = []
              \<and> TRACE_7 e p M A B C D E' F G = []
              \<and> TRACE_8 e p M A B C D E' F G H = [])"
    by (simp add: log_call_def is_call_of_def LOG_def trace_call_def TRACE_1_def TRACE_2_def TRACE_3_def
        TRACE_4_def TRACE_5_def TRACE_6_def TRACE_7_def TRACE_8_def)
  have normal: "if def_DEBUG_MODE_NORMAL e then log_call (WARNING e p M) else WARNING e p M = []"
    by (simp add: log_call_def is_call_of_def WARNING_def)
  have errors: "error_call (ERROR e p M) \<and> error_call (ERROR_WITH_TITLE e p T M)"
    by (simp add: error_call_def is_call_of_def ERROR_def ERROR_WITH_TITLE_def)
  from modes full normal errors show ?thesis by blast
qed

theorem debug_levels_hierarchy_witness:
  "def_DEBUG_MODE_NORMAL (include_header \<lparr>def_PREFIX = Some ''cba'',
       def_COMPONENT = Some ''main'', def_MAINPREFIX = None, def_SUBPREFIX = None,
       def_MAINLOGIC = None, def_VERSION = None, def_VERSION_AR = None,
       def_VERSION_CONFIG = None, def_DEBUG_SETTINGS = None,
       def_THIS_FILE = None, def_MODULAR = False, def_DEBUG_MODE_FULL = True,
       def_DEBUG_MODE_NORMAL = False, def_DEBUG_MODE_MINIMAL = False\<rparr>)
   \<and> is_call_of ''CBA_fnc_log'' (LOG (include_header \<lparr>def_PREFIX = Some ''cba'',
       def_COMPONENT = Some ''main'', def_MAINPREFIX = None, def_SUBPREFIX = None,
       def_MAINLOGIC = None, def_VERSION = None, def_VERSION_AR = None,
       def_VERSION_CONFIG = None, def_DEBUG_SETTINGS = None,
       def_THIS_FILE = None, def_MODULAR = False, def_DEBUG_MODE_FULL = True,
       def_DEBUG_MODE_NORMAL = False, def_DEBUG_MODE_MINIMAL = False\<rparr>)
         \<lparr>site_file = ''fnc_frog.sqf'', site_line = 12\<rparr> (StrD ''Initiated''))"
  using debug_levels_hierarchy [of
      "\<lparr>def_PREFIX = Some ''cba'',
       def_COMPONENT = Some ''main'', def_MAINPREFIX = None, def_SUBPREFIX = None,
       def_MAINLOGIC = None, def_VERSION = None, def_VERSION_AR = None,
       def_VERSION_CONFIG = None, def_DEBUG_SETTINGS = None,
       def_THIS_FILE = None, def_MODULAR = False, def_DEBUG_MODE_FULL = True,
       def_DEBUG_MODE_NORMAL = False, def_DEBUG_MODE_MINIMAL = False\<rparr>"
      "\<lparr>site_file = ''fnc_frog.sqf'', site_line = 12\<rparr>" "StrD ''Initiated''"]
  by (simp add: include_header_modes)

lemma render_paste_right:
  "render (paste_right L op M) = render L @ '' '' @ op @ '' '' @ render M"
  by (induction L op M rule: paste_right.induct) simp_all

lemma render_paste_unary: "render (paste_unary op M) = op @ '' '' @ render M"
  by (induction op M rule: paste_unary.induct) simp_all

text \<open>
  C1, as the header has it. \<^verbatim>\<open>LOG(M)\<close> is
  \<^verbatim>\<open>[THIS_FILE_, __LINE__, M] call CBA_fnc_log\<close> when \<^verbatim>\<open>DEBUG_MODE_FULL\<close> is
  defined and empty otherwise; \<^verbatim>\<open>WARNING(M)\<close> is
  \<^verbatim>\<open>[THIS_FILE_, __LINE__, ('WARNING: ' + M)] call CBA_fnc_log\<close> when
  \<^verbatim>\<open>DEBUG_MODE_NORMAL\<close> is in force (the including file defined
  \<^verbatim>\<open>DEBUG_MODE_FULL\<close> or \<^verbatim>\<open>DEBUG_MODE_NORMAL\<close>, or none of the three modes) and
  empty otherwise; \<^verbatim>\<open>ERROR(M)\<close> is
  \<^verbatim>\<open>[THIS_FILE_, __LINE__, "ERROR", M] call CBA_fnc_error;\<close> and
  \<^verbatim>\<open>ERROR_WITH_TITLE(T,M)\<close> is \<^verbatim>\<open>[THIS_FILE_, __LINE__, T, M] call CBA_fnc_error;\<close>
  under every table, each with the semicolon at its end. The statement gives the tree of
  each expansion and its text. In \<^verbatim>\<open>WARNING\<close> the text of \<open>M\<close> is pasted behind
  \<^verbatim>\<open>'WARNING: ' +\<close> as it is; for a message that is a string the sum has the two
  operands \<^verbatim>\<open>'WARNING: '\<close> and the string.
\<close>

theorem logging_macros_expand:
  fixes d :: macro_table and p :: site
  defines "e \<equiv> include_header d"
  defines "file \<equiv> render (THIS_FILE_macro e p)"
  defines "line \<equiv> show_nat (site_line p)"
  shows "LOG e p M =
           (if def_DEBUG_MODE_FULL d
            then [Eval (Binary (Arr [THIS_FILE_macro e p, LINE_macro p, M]) ''call''
                          (Ident ''CBA_fnc_log''))]
            else [])
       \<and> WARNING e p M =
           (if def_DEBUG_MODE_FULL d \<or> def_DEBUG_MODE_NORMAL d \<or> \<not> def_DEBUG_MODE_MINIMAL d
            then [Eval (Binary
                          (Arr [THIS_FILE_macro e p, LINE_macro p,
                                Paren (paste_right (StrS ''WARNING: '') ''+'' M)])
                          ''call'' (Ident ''CBA_fnc_log''))]
            else [])
       \<and> paste_right (StrS ''WARNING: '') ''+'' (StrD m)
           = Binary (StrS ''WARNING: '') ''+'' (StrD m)
       \<and> ERROR e p M =
           [Eval (Binary (Arr [THIS_FILE_macro e p, LINE_macro p, StrD ''ERROR'', M]) ''call''
                    (Ident ''CBA_fnc_error'')),
            Empty]
       \<and> ERROR_WITH_TITLE e p T M =
           [Eval (Binary (Arr [THIS_FILE_macro e p, LINE_macro p, T, M]) ''call''
                    (Ident ''CBA_fnc_error'')),
            Empty]
       \<and> render_stmts (LOG e p M) =
           (if def_DEBUG_MODE_FULL d
            then ''['' @ file @ '', '' @ line @ '', '' @ render M @ ''] call CBA_fnc_log''
            else [])
       \<and> render_stmts (WARNING e p M) =
           (if def_DEBUG_MODE_FULL d \<or> def_DEBUG_MODE_NORMAL d \<or> \<not> def_DEBUG_MODE_MINIMAL d
            then ''['' @ file @ '', '' @ line @ '', ('' @ [CHR 0x27] @ ''WARNING: ''
                   @ [CHR 0x27] @ '' + '' @ render M @ '')] call CBA_fnc_log''
            else [])
       \<and> render_stmts (ERROR e p M) =
           ''['' @ file @ '', '' @ line @ '', '' @ double_quoted ''ERROR'' @ '', '' @ render M
             @ ''] call CBA_fnc_error;''
       \<and> render_stmts (ERROR_WITH_TITLE e p T M) =
           ''['' @ file @ '', '' @ line @ '', '' @ render T @ '', '' @ render M
             @ ''] call CBA_fnc_error;''"
proof -
  have trees: "LOG e p M =
           (if def_DEBUG_MODE_FULL d
            then [Eval (Binary (Arr [THIS_FILE_macro e p, LINE_macro p, M]) ''call''
                          (Ident ''CBA_fnc_log''))]
            else [])
       \<and> WARNING e p M =
           (if def_DEBUG_MODE_FULL d \<or> def_DEBUG_MODE_NORMAL d \<or> \<not> def_DEBUG_MODE_MINIMAL d
            then [Eval (Binary
                          (Arr [THIS_FILE_macro e p, LINE_macro p,
                                Paren (paste_right (StrS ''WARNING: '') ''+'' M)])
                          ''call'' (Ident ''CBA_fnc_log''))]
            else [])
       \<and> paste_right (StrS ''WARNING: '') ''+'' (StrD m)
           = Binary (StrS ''WARNING: '') ''+'' (StrD m)
       \<and> ERROR e p M =
           [Eval (Binary (Arr [THIS_FILE_macro e p, LINE_macro p, StrD ''ERROR'', M]) ''call''
                    (Ident ''CBA_fnc_error'')),
            Empty]
       \<and> ERROR_WITH_TITLE e p T M =
           [Eval (Binary (Arr [THIS_FILE_macro e p, LINE_macro p, T, M]) ''call''
                    (Ident ''CBA_fnc_error'')),
            Empty]"
    by (simp add: e_def LOG_def WARNING_def ERROR_def ERROR_WITH_TITLE_def
        include_header_modes)
  have log: "render_stmts (LOG e p M) =
           (if def_DEBUG_MODE_FULL d
            then ''['' @ file @ '', '' @ line @ '', '' @ render M @ ''] call CBA_fnc_log''
            else [])"
    by (simp add: e_def file_def line_def LOG_def LINE_macro_def include_header_modes)
  have warning: "render_stmts (WARNING e p M) =
           (if def_DEBUG_MODE_FULL d \<or> def_DEBUG_MODE_NORMAL d \<or> \<not> def_DEBUG_MODE_MINIMAL d
            then ''['' @ file @ '', '' @ line @ '', ('' @ [CHR 0x27] @ ''WARNING: ''
                   @ [CHR 0x27] @ '' + '' @ render M @ '')] call CBA_fnc_log''
            else [])"
    by (simp add: e_def file_def line_def WARNING_def LINE_macro_def include_header_modes
        render_paste_right)
  have error: "render_stmts (ERROR e p M) =
           ''['' @ file @ '', '' @ line @ '', '' @ double_quoted ''ERROR'' @ '', '' @ render M
             @ ''] call CBA_fnc_error;''"
    by (simp add: e_def file_def line_def ERROR_def LINE_macro_def double_quoted_def)
  have titled: "render_stmts (ERROR_WITH_TITLE e p T M) =
           ''['' @ file @ '', '' @ line @ '', '' @ render T @ '', '' @ render M
             @ ''] call CBA_fnc_error;''"
    by (simp add: e_def file_def line_def ERROR_WITH_TITLE_def LINE_macro_def)
  from trees log warning error titled show ?thesis by blast
qed

theorem logging_macros_expand_witness:
  "WARNING (include_header demo_table) demo_site (StrD ''Deprecated'')
     = [Eval (Binary
                (Arr [StrD ''fnc_frog.sqf'', Num 12,
                      Paren (Binary (StrS ''WARNING: '') ''+'' (StrD ''Deprecated''))])
                ''call'' (Ident ''CBA_fnc_log''))]
   \<and> render_stmts (ERROR (include_header demo_table) demo_site (StrD ''Oops''))
     = ''['' @ double_quoted ''fnc_frog.sqf'' @ '', 12, '' @ double_quoted ''ERROR'' @ '', ''
         @ double_quoted ''Oops'' @ ''] call CBA_fnc_error;''"
  using logging_macros_expand [of demo_table demo_site "StrD ''Deprecated''"]
    logging_macros_expand [of demo_table demo_site "StrD ''Oops''"]
  by (simp add: THIS_FILE_macro_def LINE_macro_def include_header_modes demo_table_def
      demo_site_def double_quoted_def show_nat.simps digit_char_def)

text \<open>
  The claim as written has \<^verbatim>\<open>LOG(M)\<close> expand to the logging call under every
  debug-mode configuration, and gives the text of \<^verbatim>\<open>ERROR(M)\<close> as ending in
  \<^verbatim>\<open>call CBA_fnc_error\<close>. A file that defines no debug mode gets
  \<^verbatim>\<open>DEBUG_MODE_NORMAL\<close>, under which \<^verbatim>\<open>LOG("Initiated")\<close> expands to nothing;
  and the text of \<^verbatim>\<open>ERROR("Oops")\<close> has a semicolon behind the call.
\<close>

theorem log_disabled_counterexample:
  "LOG (include_header demo_table) demo_site (StrD ''Initiated'')
     \<noteq> [Eval (Binary (Arr [StrD ''fnc_frog.sqf'', Num 12, StrD ''Initiated'']) ''call''
                (Ident ''CBA_fnc_log''))]
   \<and> LOG (include_header demo_table) demo_site (StrD ''Initiated'') = []
   \<and> render_stmts (ERROR (include_header demo_table) demo_site (StrD ''Oops''))
     \<noteq> ''['' @ double_quoted ''fnc_frog.sqf'' @ '', 12, '' @ double_quoted ''ERROR'' @ '', ''
         @ double_quoted ''Oops'' @ ''] call CBA_fnc_error''"
  by (simp add: LOG_def ERROR_def THIS_FILE_macro_def LINE_macro_def include_header_modes
      demo_table_def demo_site_def double_quoted_def show_nat.simps digit_char_def)

text \<open>
  The replacement texts of the logging macros hold \<^verbatim>\<open>__LINE__\<close>: the same
  invocation on two lines of a file has two expansions.
\<close>

lemma ERROR_depends_on_line:
  "ERROR e \<lparr>site_file = f, site_line = 12\<rparr> M \<noteq> ERROR e \<lparr>site_file = f, site_line = 13\<rparr> M"
  "render_stmts (ERROR e \<lparr>site_file = f, site_line = 12\<rparr> M)
     \<noteq> render_stmts (ERROR e \<lparr>site_file = f, site_line = 13\<rparr> M)"
  by (simp_all add: ERROR_def THIS_FILE_macro_def LINE_macro_def show_nat.simps digit_char_def
      split: option.splits)

section \<open>Type-checking macros: results\<close>

lemma lower_char_inj: "inj_on lower_char upper_letters"
  unfolding upper_letters_def inj_on_def lower_char_def by simp

lemma same_text_upper:
  assumes "set a \<subseteq> upper_letters" "set b \<subseteq> upper_letters"
  shows "same_text a b = (a = b)"
proof -
  have "inj_on lower_char (set a \<union> set b)"
    using assms lower_char_inj by (meson Un_least inj_on_subset)
  then show ?thesis unfolding same_text_def by (simp add: inj_on_map_eq_map)
qed

lemma type_name_upper: "set (type_name v) \<subseteq> upper_letters"
proof (cases v)
  case (VHandle h i)
  then show ?thesis by (cases h) (simp_all add: upper_letters_def)
qed (simp_all add: upper_letters_def)

lemma eval_is_type:
  assumes "eval E n X s = Inr (v, s')" and "v \<noteq> VNil" and "set T \<subseteq> upper_letters"
  shows "eval E n (is_type X T) s = Inr (VBool (type_name v = T), s')"
proof -
  have "unary_op E ''typeName'' v s' = Inr (VString (type_name v), s')"
    using assms(2) by (cases v) (simp_all add: unary_op_def)
  moreover have "binary_op ''=='' (VString (type_name v)) (VString T)
      = Inr (VBool (type_name v = T))"
    by (simp add: binary_op_def same_text_upper [OF type_name_upper assms(3)])
  ultimately show ?thesis
    using assms(1) by (simp add: is_type_def)
qed

text \<open>
  The part of C5 that the header delivers: on a value that is not nil, each of the fourteen
  \<^verbatim>\<open>IS_T\<close> macros is true exactly when \<^verbatim>\<open>typeName\<close> gives \<^verbatim>\<open>"T"\<close>, and
  \<^verbatim>\<open>IS_BOOLEAN\<close>, \<^verbatim>\<open>IS_FUNCTION\<close> and \<^verbatim>\<open>IS_NUMBER\<close> are
  \<^verbatim>\<open>IS_BOOL\<close>, \<^verbatim>\<open>IS_CODE\<close> and \<^verbatim>\<open>IS_SCALAR\<close>.
\<close>

lemma type_checks_follow_typeName:
  assumes "eval E n X s = Inr (v, s')" and "v \<noteq> VNil"
  shows "eval E n (IS_ARRAY X) s = Inr (VBool (type_name v = ''ARRAY''), s')"
    and "eval E n (IS_BOOL X) s = Inr (VBool (type_name v = ''BOOL''), s')"
    and "eval E n (IS_CODE X) s = Inr (VBool (type_name v = ''CODE''), s')"
    and "eval E n (IS_CONFIG X) s = Inr (VBool (type_name v = ''CONFIG''), s')"
    and "eval E n (IS_CONTROL X) s = Inr (VBool (type_name v = ''CONTROL''), s')"
    and "eval E n (IS_DISPLAY X) s = Inr (VBool (type_name v = ''DISPLAY''), s')"
    and "eval E n (IS_GROUP X) s = Inr (VBool (type_name v = ''GROUP''), s')"
    and "eval E n (IS_OBJECT X) s = Inr (VBool (type_name v = ''OBJECT''), s')"
    and "eval E n (IS_SCALAR X) s = Inr (VBool (type_name v = ''SCALAR''), s')"
    and "eval E n (IS_SCRIPT X) s = Inr (VBool (type_name v = ''SCRIPT''), s')"
    and "eval E n (IS_SIDE X) s = Inr (VBool (type_name v = ''SIDE''), s')"
    and "eval E n (IS_STRING X) s = Inr (VBool (type_name v = ''STRING''), s')"
    and "eval E n (IS_TEXT X) s = Inr (VBool (type_name v = ''TEXT''), s')"
    and "eval E n (IS_LOCATION X) s = Inr (VBool (type_name v = ''LOCATION''), s')"
    and "IS_BOOLEAN X = IS_BOOL X" and "IS_FUNCTION X = IS_CODE X"
    and "IS_NUMBER X = IS_SCALAR X"
  unfolding IS_ARRAY_def IS_BOOL_def IS_CODE_def IS_CONFIG_def IS_CONTROL_def IS_DISPLAY_def
    IS_GROUP_def IS_OBJECT_def IS_SCALAR_def IS_SCRIPT_def IS_SIDE_def IS_STRING_def
    IS_TEXT_def IS_LOCATION_def IS_BOOLEAN_def IS_FUNCTION_def IS_NUMBER_def
  by (simp_all add: eval_is_type [OF assms] upper_letters_def)

text \<open>
  C5 at \<^verbatim>\<open>IS_INTEGER\<close>. The claim has \<^verbatim>\<open>IS_INTEGER(3)\<close> evaluate to true and
  \<^verbatim>\<open>IS_INTEGER("a")\<close> to false. The macro hands \<^verbatim>\<open>if\<close> the code block
  \<^verbatim>\<open>{ IS_SCALAR(VAR) }\<close> where \<^verbatim>\<open>if\<close> takes a boolean, so whatever the
  argument, the evaluation stops with a type error at \<^verbatim>\<open>if\<close> and yields no truth
  value at all.
\<close>

theorem IS_INTEGER_type_error:
  "eval E n (IS_INTEGER (Num 3)) s = Inl (Type_Error ''if'')
   \<and> eval E n (IS_INTEGER (StrD ''a'')) s = Inl (Type_Error ''if'')
   \<and> eval E n (IS_INTEGER VAR) s = Inl (Type_Error ''if'')"
  by (simp add: IS_INTEGER_def unary_op_def)

section \<open>Array access macros: results\<close>

text \<open>
  The part of C9 that the header delivers: \<^verbatim>\<open>ARG_1\<close> to \<^verbatim>\<open>ARG_6\<close> index
  successively, under either treatment of surplus arguments.
\<close>

lemma ARG_1_to_6_index:
  assumes "1 \<le> k" and "k \<le> 6" and "length idx = k"
    and "eval_list E n (X # idx) s = Inr (x # vs, s')"
    and "index_path x vs = Inr r"
  shows "\<exists>t. ARG k pol (X # idx) = Some t \<and> eval E n t s = Inr (r, s')"
proof -
  from assms(1,2) consider "k = 1" | "k = 2" | "k = 3" | "k = 4" | "k = 5" | "k = 6"
    by linarith
  then show ?thesis
  proof cases
    case 1
    with assms(3) obtain i1 where "idx = [i1]"
      by (auto simp: length_Suc_conv)
    with 1 assms(4,5) show ?thesis
      by (auto simp: ARG_def ARG_1_def bind_args_def split: sum.splits prod.splits)
  next
    case 2
    with assms(3) obtain i1 i2 where "idx = [i1, i2]"
      by (auto simp: length_Suc_conv numeral_eq_Suc)
    with 2 assms(4,5) show ?thesis
      by (auto simp: ARG_def ARG_2_def ARG_1_def bind_args_def split: sum.splits prod.splits)
  next
    case 3
    with assms(3) obtain i1 i2 i3 where "idx = [i1, i2, i3]"
      by (auto simp: length_Suc_conv numeral_eq_Suc)
    with 3 assms(4,5) show ?thesis
      by (auto simp: ARG_def ARG_3_def ARG_2_def ARG_1_def bind_args_def
          split: sum.splits prod.splits)
  next
    case 4
    with assms(3) obtain i1 i2 i3 i4 where "idx = [i1, i2, i3, i4]"
      by (auto simp: length_Suc_conv numeral_eq_Suc)
    with 4 assms(4,5) show ?thesis
      by (auto simp: ARG_def ARG_4_def ARG_3_def ARG_2_def ARG_1_def bind_args_def
          split: sum.splits prod.splits)
  next
    case 5
    with assms(3) obtain i1 i2 i3 i4 i5 where "idx = [i1, i2, i3, i4, i5]"
      by (auto simp: length_Suc_conv numeral_eq_Suc)
    with 5 assms(4,5) show ?thesis
      by (auto simp: ARG_def ARG_5_def ARG_4_def ARG_3_def ARG_2_def ARG_1_def bind_args_def
          split: sum.splits prod.splits)
  next
    case 6
    with assms(3) obtain i1 i2 i3 i4 i5 i6 where "idx = [i1, i2, i3, i4, i5, i6]"
      by (auto simp: length_Suc_conv numeral_eq_Suc)
    with 6 assms(4,5) show ?thesis
      by (auto simp: ARG_def ARG_6_def ARG_5_def ARG_4_def ARG_3_def ARG_2_def ARG_1_def
          bind_args_def split: sum.splits prod.splits)
  qed
qed

text \<open>
  C9 at \<^verbatim>\<open>ARG_7\<close>. Let the variable \<^verbatim>\<open>_x\<close> hold the nested array
  \<^verbatim>\<open>[[[[[[9, [7]], [[5]]]]]]]\<close> and take the indices 0, 0, 0, 0, 1, 0, 0: indexing
  successively gives 5. \<^verbatim>\<open>ARG_7(A,B,C,D,E,F,G,H)\<close> invokes
  \<^verbatim>\<open>ARG_6(A,B,C,D,E,E,F,G)\<close>, with \<^verbatim>\<open>E\<close> twice and one argument too many. A
  preprocessor that refuses the surplus argument produces no expansion of
  \<^verbatim>\<open>ARG_7(_x,0,0,0,0,1,0,0)\<close>; one that drops it indexes by B, C, D, E, E, F, H
  and gives 7. \<^verbatim>\<open>ARG_8\<close> is built on \<^verbatim>\<open>ARG_7\<close> and repeats the slip.
\<close>

theorem ARG_7_misindexes:
  "get_var ''_x'' nested_state = nested_array
   \<and> index_path nested_array
       [VScalar 0, VScalar 0, VScalar 0, VScalar 0, VScalar 1, VScalar 0, VScalar 0]
     = Inr (VScalar 5)
   \<and> ARG 7 Refuse [Ident ''_x'', Num 0, Num 0, Num 0, Num 0, Num 1, Num 0, Num 0] = None
   \<and> (\<exists>t. ARG 7 Drop_Surplus [Ident ''_x'', Num 0, Num 0, Num 0, Num 0, Num 1, Num 0, Num 0]
            = Some t
          \<and> eval plain_engine 0 t nested_state = Inr (VScalar 7, nested_state))
   \<and> ARG 8 Refuse [A, B, C, D, E', F, G, H, I] = None"
  by (simp add: ARG_def ARG_8_def ARG_7_def ARG_6_def ARG_5_def ARG_4_def ARG_3_def ARG_2_def
      ARG_1_def bind_args_def binary_op_def select_op_def nested_state_def nested_array_def
      nular_def get_var_def is_local_def)

section \<open>Default values: results\<close>

lemma pop_push [simp]: "pop_frame (push_frame arg s) = s"
  by (simp add: pop_frame_def push_frame_def)

lemma ISNILS_eval:
  assumes "\<not> is_local V" and "d \<noteq> VNil"
    and "eval E n D (push_frame None s) = Inr (d, push_frame None s)"
  shows "eval E (Suc n) (ISNILS V D) s =
           Inr (VNil, if get_var V s = VNil then set_var V d s else s)"
  using assms
  by (simp add: ISNILS_def unary_op_def branch_def get_var_def set_var_def
      push_frame_def pop_frame_def)

lemma ISNILS_defined:
  assumes "\<not> is_local V" and "get_var V s \<noteq> VNil"
  shows "eval E n (ISNILS V D) s = Inr (VNil, s)"
  using assms
  by (simp add: ISNILS_def unary_op_def branch_def get_var_def)

text \<open>
  C10. Let \<open>V\<close> be a global variable and \<open>D\<close> an expression whose value \<open>d\<close> is not nil
  (read inside the braces of the macro, where it is evaluated, and without effect on the
  state). Then \<^verbatim>\<open>ISNILS(V,D)\<close> terminates; it leaves the state as it is when \<open>V\<close> is
  defined, and sets \<open>V\<close> to \<open>d\<close> when \<open>V\<close> is undefined; afterwards \<open>V\<close> is defined, and
  running \<^verbatim>\<open>ISNILS(V,D)\<close> again changes nothing.
\<close>

theorem ISNILS_sets_default_once:
  assumes "\<not> is_local V" and "d \<noteq> VNil"
    and "eval E n D (push_frame None s) = Inr (d, push_frame None s)"
  shows "\<exists>s'. eval E (Suc n) (ISNILS V D) s = Inr (VNil, s')
           \<and> (get_var V s \<noteq> VNil \<longrightarrow> s' = s)
           \<and> (get_var V s = VNil \<longrightarrow> s' = set_var V d s \<and> get_var V s' = d)
           \<and> get_var V s' \<noteq> VNil
           \<and> eval E (Suc n) (ISNILS V D) s' = Inr (VNil, s')"
proof -
  let ?s' = "if get_var V s = VNil then set_var V d s else s"
  have 1: "eval E (Suc n) (ISNILS V D) s = Inr (VNil, ?s')"
    by (rule ISNILS_eval [OF assms])
  have 2: "get_var V (set_var V d s) = d"
    using assms(1) by (simp add: get_var_def set_var_def)
  have 3: "get_var V ?s' \<noteq> VNil"
    using 2 assms(2) by simp
  have 4: "eval E (Suc n) (ISNILS V D) ?s' = Inr (VNil, ?s')"
    by (rule ISNILS_defined [OF assms(1) 3])
  show ?thesis
    using 1 2 3 4 by (intro exI [of _ ?s']) simp
qed

theorem ISNILS_sets_default_once_witness:
  "\<not> is_local ''fish'' \<and> VScalar 0 \<noteq> VNil
   \<and> eval plain_engine 0 (Num 0) (push_frame None empty_state)
       = Inr (VScalar 0, push_frame None empty_state)
   \<and> (\<exists>s'. eval plain_engine (Suc 0) (ISNILS ''fish'' (Num 0)) empty_state = Inr (VNil, s')
          \<and> get_var ''fish'' s' = VScalar 0
          \<and> eval plain_engine (Suc 0) (ISNILS ''fish'' (Num 0)) s' = Inr (VNil, s'))"
  using ISNILS_sets_default_once [of "''fish''" "VScalar 0" plain_engine 0 "Num 0" empty_state]
  by (auto simp: is_local_def get_var_def empty_state_def)

section \<open>Parameter macros: results\<close>

lemma EXPLODE_shape:
  assumes "EXPLODE ARRAY As = Some prog"
  shows "prog = map (select_stmt ARRAY) (zip As [0..<length As]) \<and> 2 \<le> length As \<and> length As \<le> 8"
  using assms
  by (auto simp: EXPLODE_def EXPLODE_2_def EXPLODE_3_def EXPLODE_4_def EXPLODE_5_def
      EXPLODE_6_def EXPLODE_7_def EXPLODE_8_def select_stmt_def upt_rec
      split: list.splits)


lemma lookup_assign_same: "lookup_frames (assign_frames Fs A v) A = v"
  by (induction Fs) (auto split: option.splits)


lemma get_set_same: "get_var A (set_var A v s) = v"
  by (auto simp: get_var_def set_var_def lookup_assign_same)


















lemma THIS_FILE_eval: "eval E n (THIS_FILE_macro e p) s = Inr (file_value e p, s)"
  by (simp add: THIS_FILE_macro_def file_value_def split: option.splits)




lemma EXPLODE_defined: "(EXPLODE ARRAY As \<noteq> None) = (2 \<le> length As \<and> length As \<le> 8)"
proof -
  have "As = [] \<or> (\<exists>a. As = [a]) \<or> 2 \<le> length As"
    by (cases As; cases "tl As") auto
  moreover have "9 \<le> length As \<Longrightarrow> EXPLODE ARRAY As = None"
    by (auto simp: EXPLODE_def split: list.splits)
  moreover have "EXPLODE ARRAY As \<noteq> None \<Longrightarrow> 2 \<le> length As \<and> length As \<le> 8"
    using EXPLODE_shape [of ARRAY As] by auto
  moreover have "2 \<le> length As \<Longrightarrow> length As \<le> 8 \<Longrightarrow> EXPLODE ARRAY As \<noteq> None"
    by (auto simp: EXPLODE_def split: list.splits)
  ultimately show ?thesis by blast
qed




section \<open>Deprecation macros: results\<close>

lemma declared_append: "declared (xs @ ys) x = (declared xs x \<or> declared ys x)"
  by (simp add: declared_def list_ex_iff) blast

lemma declared_Cons: "declared (F # Fs) x = (F x \<noteq> None \<or> declared Fs x)"
  by (simp add: declared_def)

lemma declared_Nil: "\<not> declared [] x"
  by (simp add: declared_def)

lemma declared_merge: "declared block x = (merge block x \<noteq> None)"
  by (induction block) (auto simp: declared_Cons declared_Nil map_add_def split: option.splits)

lemma lookup_block: "lookup_frames (block @ post) x = lookup_frames (merge block # post) x"
  by (induction block) (auto simp: map_add_def split: option.splits)

lemma lookup_merge:
  "lookup_frames (pre @ block @ post) x = lookup_frames (pre @ merge block # post) x"
proof (induction pre)
  case Nil
  show ?case using lookup_block [of block post x] by simp
next
  case (Cons P pre)
  then show ?case by (simp split: option.splits)
qed

lemma assign_in_block:
  "declared block x \<Longrightarrow>
   \<exists>block'. length block' = length block \<and> assign_frames (block @ rest) x v = block' @ rest
      \<and> merge block' = (merge block)(x \<mapsto> v)"
proof (induction block)
  case Nil
  then show ?case by (simp add: declared_Nil)
next
  case (Cons F block)
  show ?case
  proof (cases "F x = None")
    case True
    then have d: "declared block x" using Cons.prems by (simp add: declared_Cons)
    from Cons.IH [OF d] obtain block' where
      b: "length block' = length block" "assign_frames (block @ rest) x v = block' @ rest"
         "merge block' = (merge block)(x \<mapsto> v)"
      by blast
    have "merge (F # block') = (merge (F # block))(x \<mapsto> v)"
      using True b(3) by (auto simp: map_add_def fun_eq_iff split: option.splits)
    then show ?thesis
      using True d b by (intro exI [of _ "F # block'"]) (simp add: declared_append)
  next
    case False
    have "merge (F(x \<mapsto> v) # block) = (merge (F # block))(x \<mapsto> v)"
      by (auto simp: map_add_def fun_eq_iff split: option.splits)
    then show ?thesis
      using False by (intro exI [of _ "F(x \<mapsto> v) # block"]) auto
  qed
qed

lemma assign_skip:
  "\<not> declared fs x \<Longrightarrow> declared post x \<Longrightarrow>
   assign_frames (fs @ post) x v = fs @ assign_frames post x v"
  by (induction fs) (auto simp: declared_Cons declared_append)

lemma assign_block:
  assumes "block \<noteq> []"
  shows "\<exists>block' post'. length block' = length block
           \<and> assign_frames (block @ post) x v = block' @ post'
           \<and> assign_frames (merge block # post) x v = merge block' # post'"
proof (cases "declared block x")
  case True
  from assign_in_block [OF True, of post v] obtain block' where
    b: "length block' = length block" "assign_frames (block @ post) x v = block' @ post"
       "merge block' = (merge block)(x \<mapsto> v)"
    by blast
  have "merge block x \<noteq> None" using True by (simp add: declared_merge)
  then have "assign_frames (merge block # post) x v = merge block' # post"
    using b(3) by auto
  with b show ?thesis by blast
next
  case False
  then have m: "merge block x = None" by (simp add: declared_merge)
  show ?thesis
  proof (cases "declared post x")
    case True
    have "assign_frames (block @ post) x v = block @ assign_frames post x v"
      by (rule assign_skip [OF False True])
    moreover have "assign_frames (merge block # post) x v = merge block # assign_frames post x v"
      using m True by simp
    ultimately show ?thesis by blast
  next
    case p: False
    obtain F Fs where b: "block = F # Fs" using assms by (cases block) auto
    have F: "F x = None" and Fs: "\<not> declared Fs x"
      using False b by (auto simp: declared_Cons)
    have 1: "assign_frames (block @ post) x v = (F(x \<mapsto> v) # Fs) @ post"
      using F Fs p by (simp add: b declared_append)
    have 2: "assign_frames (merge block # post) x v = (merge block)(x \<mapsto> v) # post"
      using m p by simp
    have 3: "merge (F(x \<mapsto> v) # Fs) = (merge block)(x \<mapsto> v)"
      by (auto simp: b map_add_def fun_eq_iff split: option.splits)
    show ?thesis
      using 1 2 3 b by (intro exI [of _ "F(x \<mapsto> v) # Fs"] exI [of _ post]) simp
  qed
qed

lemma assign_merge:
  assumes "block \<noteq> []"
  shows "\<exists>pre' block' post'. length pre' = length pre \<and> length block' = length block
           \<and> assign_frames (pre @ block @ post) x v = pre' @ block' @ post'
           \<and> assign_frames (pre @ merge block # post) x v = pre' @ merge block' # post'"
proof (induction pre)
  case Nil
  from assign_block [OF assms, of post x v] show ?case by auto
next
  case (Cons P pre)
  have d: "declared (pre @ block @ post) x = declared (pre @ merge block # post) x"
    by (simp add: declared_append declared_Cons declared_merge [of block])
  show ?case
  proof (cases "P x = None \<and> declared (pre @ block @ post) x")
    case True
    from Cons.IH obtain pre' block' post' where
      i: "length pre' = length pre" "length block' = length block"
         "assign_frames (pre @ block @ post) x v = pre' @ block' @ post'"
         "assign_frames (pre @ merge block # post) x v = pre' @ merge block' # post'"
      by blast
    show ?thesis
      using True d i
      by (intro exI [of _ "P # pre'"] exI [of _ block'] exI [of _ post']) simp
  next
    case False
    then show ?thesis
      using d
      by (intro exI [of _ "P(x \<mapsto> v) # pre"] exI [of _ block] exI [of _ post]) auto
  qed
qed

lemma declare_merge:
  assumes "block \<noteq> []"
  shows "\<exists>pre' block'. length pre' = length pre \<and> length block' = length block
           \<and> declare_frames (pre @ block @ post) x = pre' @ block' @ post
           \<and> declare_frames (pre @ merge block # post) x = pre' @ merge block' # post"
proof (cases pre)
  case Nil
  obtain F Fs where b: "block = F # Fs" using assms by (cases block) auto
  have "merge (F(x \<mapsto> VNil) # Fs) = (merge block)(x \<mapsto> VNil)"
    by (auto simp: b map_add_def fun_eq_iff split: option.splits)
  then show ?thesis
    using Nil b by (intro exI [of _ "[]"] exI [of _ "F(x \<mapsto> VNil) # Fs"]) simp
next
  case (Cons P pre0)
  then show ?thesis
    by (intro exI [of _ "P(x \<mapsto> VNil) # pre0"] exI [of _ block]) simp
qed


lemma related_get_var:
  assumes "related m t1 t2 k s1 s2"
  shows "get_var x s1 = get_var x s2"
  using assms by (auto simp: related_def get_var_def lookup_merge)

lemma related_nular:
  "related m t1 t2 k s1 s2 \<Longrightarrow> nular x s1 = nular x s2"
  by (simp add: nular_def related_get_var)

lemma related_set_var:
  assumes "related m t1 t2 k s1 s2"
  shows "related m t1 t2 k (set_var x v s1) (set_var x v s2)"
proof (cases "is_local x")
  case True
  from assms obtain pre block post l where
    f: "frames s1 = pre @ block @ post" "frames s2 = pre @ merge block # post"
    and n: "length pre = k" "length block = m" "block \<noteq> []"
    and g: "globals s1 = globals s2"
    and r: "rpt s1 = l @ t1" "rpt s2 = l @ t2"
    by (auto simp: related_def)
  from assign_merge [OF n(3), of pre post x v] obtain pre' block' post' where
    a: "length pre' = length pre" "length block' = length block"
       "assign_frames (pre @ block @ post) x v = pre' @ block' @ post'"
       "assign_frames (pre @ merge block # post) x v = pre' @ merge block' # post'"
    by blast
  have "block' \<noteq> []" using a(2) n(3) by auto
  then show ?thesis
    using True f g r a n unfolding related_def set_var_def by auto
next
  case False
  then show ?thesis
    using assms by (auto simp: related_def set_var_def)
qed

lemma related_declare_var:
  assumes "related m t1 t2 k s1 s2"
  shows "related m t1 t2 k (declare_var x s1) (declare_var x s2)"
proof -
  from assms obtain pre block post l where
    f: "frames s1 = pre @ block @ post" "frames s2 = pre @ merge block # post"
    and n: "length pre = k" "length block = m" "block \<noteq> []"
    and g: "globals s1 = globals s2"
    and r: "rpt s1 = l @ t1" "rpt s2 = l @ t2"
    by (auto simp: related_def)
  from declare_merge [OF n(3), of pre post x] obtain pre' block' where
    a: "length pre' = length pre" "length block' = length block"
       "declare_frames (pre @ block @ post) x = pre' @ block' @ post"
       "declare_frames (pre @ merge block # post) x = pre' @ merge block' # post"
    by blast
  have "block' \<noteq> []" using a(2) n(3) by auto
  then show ?thesis
    using f g r a n unfolding related_def declare_var_def by auto
qed

lemma related_declare_vars:
  assumes "related m t1 t2 k s1 s2"
  shows "related m t1 t2 k (fold declare_var xs s1) (fold declare_var xs s2)"
  using assms by (induction xs arbitrary: s1 s2) (auto intro: related_declare_var)

lemma related_push:
  assumes "related m t1 t2 k s1 s2"
  shows "related m t1 t2 (Suc k) (push_frame arg s1) (push_frame arg s2)"
proof -
  from assms obtain pre block post l where
    f: "frames s1 = pre @ block @ post" "frames s2 = pre @ merge block # post"
    and n: "length pre = k" "length block = m" "block \<noteq> []"
    and g: "globals s1 = globals s2"
    and r: "rpt s1 = l @ t1" "rpt s2 = l @ t2"
    by (auto simp: related_def)
  let ?F = "case arg of None \<Rightarrow> Map.empty | Some v \<Rightarrow> [''_this'' \<mapsto> v]"
  have "frames (push_frame arg s1) = (?F # pre) @ block @ post"
    "frames (push_frame arg s2) = (?F # pre) @ merge block # post"
    using f by (simp_all add: push_frame_def)
  then show ?thesis
    using n g r unfolding related_def
    by (intro conjI exI [of _ "?F # pre"] exI [of _ block] exI [of _ post] exI [of _ l])
      (simp_all add: push_frame_def)
qed

lemma related_pop:
  assumes "related m t1 t2 (Suc k) s1 s2"
  shows "related m t1 t2 k (pop_frame s1) (pop_frame s2)"
proof -
  from assms obtain pre block post l where
    f: "frames s1 = pre @ block @ post" "frames s2 = pre @ merge block # post"
    and n: "length pre = Suc k" "length block = m" "block \<noteq> []"
    and g: "globals s1 = globals s2"
    and r: "rpt s1 = l @ t1" "rpt s2 = l @ t2"
    by (auto simp: related_def)
  from n(1) obtain P pre' where p: "pre = P # pre'" "length pre' = k"
    by (cases pre) auto
  show ?thesis
    using f n g r p unfolding related_def
    by (intro conjI exI [of _ pre'] exI [of _ block] exI [of _ post] exI [of _ l])
      (simp_all add: pop_frame_def)
qed

lemma sim_res_same:
  "related m t1 t2 k s1 s2 \<Longrightarrow> sim_res m t1 t2 k (Inr (v, s1)) (Inr (v, s2))"
  by (simp add: sim_res_def)

lemma sim_res_error: "sim_res m t1 t2 k (Inl x) (Inl x)"
  by (simp add: sim_res_def)

lemma sim_res_pure:
  assumes "related m t1 t2 k s1 s2"
  shows "sim_res m t1 t2 k
           (case r of Inl x \<Rightarrow> Inl x | Inr v \<Rightarrow> Inr (v, s1))
           (case r of Inl x \<Rightarrow> Inl x | Inr v \<Rightarrow> Inr (v, s2))"
  using assms by (cases r) (simp_all add: sim_res_same sim_res_error)

lemma sim_res_unary:
  assumes "related m t1 t2 k s1 s2"
  shows "sim_res m t1 t2 k (unary_op E op v s1) (unary_op E op v s2)"
proof -
  note same = sim_res_same [OF assms]
  note decl = sim_res_same [OF related_declare_var [OF assms]]
  note decls = sim_res_same [OF related_declare_vars [OF assms]]
  have decls2: "sim_res m t1 t2 k (Inr (w, fold declare_var xs (declare_var x s1)))
      (Inr (w, fold declare_var xs (declare_var x s2)))" for w :: val and x xs
    using decls [of w "x # xs"] by simp
  show ?thesis
    unfolding unary_op_def
    by (auto simp: same sim_res_error decl decls decls2 related_get_var [OF assms]
        split: val.splits list.splits option.splits)
qed

lemma sim_res_library:
  assumes "related m t1 t2 k s1 s2"
  shows "sim_res m t1 t2 k (library_call l arg s1) (library_call l arg s2)"
  using assms
  by (auto simp: sim_res_def library_call_def related_def)

lemma sim_res_bind:
  assumes "sim_res m t1 t2 k r1 r2"
    and "\<And>v s1' s2'. r1 = Inr (v, s1') \<Longrightarrow> r2 = Inr (v, s2') \<Longrightarrow>
           related m t1 t2 k s1' s2' \<Longrightarrow> sim_res m t1 t2 k (k1 v s1') (k2 v s2')"
  shows "sim_res m t1 t2 k
           (case r1 of Inl x \<Rightarrow> Inl x | Inr (v, s) \<Rightarrow> k1 v s)
           (case r2 of Inl x \<Rightarrow> Inl x | Inr (v, s) \<Rightarrow> k2 v s)"
proof (cases r1)
  case (Inl x)
  then show ?thesis using assms(1) by (simp add: sim_res_def)
next
  case (Inr a)
  obtain v s1' where a: "a = (v, s1')" by (cases a)
  from assms(1) Inr a obtain s2' where
    r: "r2 = Inr (v, s2')" "related m t1 t2 k s1' s2'"
    by (auto simp: sim_res_def)
  have "sim_res m t1 t2 k (k1 v s1') (k2 v s2')"
    using assms(2) Inr a r by blast
  then show ?thesis by (simp add: Inr a r(1))
qed

lemma sim_res_popped:
  assumes "sim_res m t1 t2 (Suc k) r1 r2"
  shows "sim_res m t1 t2 k
           (case r1 of Inl x \<Rightarrow> Inl x | Inr (r, s) \<Rightarrow> Inr (r, pop_frame s))
           (case r2 of Inl x \<Rightarrow> Inl x | Inr (r, s) \<Rightarrow> Inr (r, pop_frame s))"
  using assms
  by (auto simp: sim_res_def split: sum.splits dest: related_pop)

lemma simulation:
  "\<forall>s2 k. related m t1 t2 k s1 s2 \<longrightarrow>
      sim_res m t1 t2 k (eval E n e s1) (eval E n e s2)"
  "\<forall>s2 k. related m t1 t2 k s1 s2 \<longrightarrow>
      sim_res m t1 t2 k (eval_list E n es s1) (eval_list E n es s2)"
  "\<forall>s2 k. related m t1 t2 k s1 s2 \<longrightarrow>
      sim_res m t1 t2 k (exec E n b acc s1) (exec E n b acc s2)"
  "\<forall>s2 k. related m t1 t2 k s1 s2 \<longrightarrow>
      sim_res m t1 t2 k (run E n c arg s1) (run E n c arg s2)"
proof (induction E n e s1 and E n es s1 and E n b acc s1 and E n c arg s1
    rule: eval_eval_list_exec_run.induct)
  case (1 E n k s)
  then show ?case by (simp add: sim_res_same)
next
  case (2 E n t s)
  then show ?case by (simp add: sim_res_same)
next
  case (3 E n t s)
  then show ?case by (simp add: sim_res_same)
next
  case (4 E n x s)
  show ?case
  proof (intro allI impI)
    fix s2 k assume r: "related m t1 t2 k s s2"
    show "sim_res m t1 t2 k (eval E n (Ident x) s) (eval E n (Ident x) s2)"
      using sim_res_same [OF r] related_nular [OF r, of x] by simp
  qed
next
  case (5 E n es s)
  show ?case
  proof (intro allI impI)
    fix s2 k assume r: "related m t1 t2 k s s2"
    have a: "sim_res m t1 t2 k (eval_list E n es s) (eval_list E n es s2)"
      using 5 r by blast
    show "sim_res m t1 t2 k (eval E n (Arr es) s) (eval E n (Arr es) s2)"
      unfolding eval.simps
      by (rule sim_res_bind [OF a]) (simp add: sim_res_same)
  qed
next
  case (6 E n b s)
  then show ?case by (simp add: sim_res_same)
next
  case (7 E n e s)
  then show ?case by simp
next
  case (8 E n op a s)
  show ?case
  proof (intro allI impI)
    fix s2 k assume r: "related m t1 t2 k s s2"
    have a: "sim_res m t1 t2 k (eval E n a s) (eval E n a s2)"
      using 8(1) r by blast
    show "sim_res m t1 t2 k (eval E n (Unary op a) s) (eval E n (Unary op a) s2)"
      unfolding eval.simps
    proof (rule sim_res_bind [OF a])
      fix v s1' s2'
      assume e: "eval E n a s = Inr (v, s1')" and r': "related m t1 t2 k s1' s2'"
      consider "op = ''call''" | "op \<noteq> ''call''" "op = ''isNil'' \<and> type_name v = ''CODE''"
        | "op \<noteq> ''call''" "\<not> (op = ''isNil'' \<and> type_name v = ''CODE'')"
        by blast
      then show "sim_res m t1 t2 k
          (if op = ''call'' then run E n v None s1'
           else if op = ''isNil'' \<and> type_name v = ''CODE''
             then case run E n v None s1' of Inl x \<Rightarrow> Inl x
                  | Inr (r, s2) \<Rightarrow> Inr (VBool (r = VNil), s2)
             else unary_op E op v s1')
          (if op = ''call'' then run E n v None s2'
           else if op = ''isNil'' \<and> type_name v = ''CODE''
             then case run E n v None s2' of Inl x \<Rightarrow> Inl x
                  | Inr (r, s2) \<Rightarrow> Inr (VBool (r = VNil), s2)
             else unary_op E op v s2')"
      proof cases
        case 1
        then show ?thesis using 8(2) [OF e refl 1] r' by simp
      next
        case 2
        have b: "sim_res m t1 t2 k (run E n v None s1') (run E n v None s2')"
          using 8(3) [OF e refl 2] r' by blast
        show ?thesis
          using 2 by (simp add: sim_res_bind [OF b] sim_res_same)
      next
        case 3
        then show ?thesis using sim_res_unary [OF r'] by auto
      qed
    qed
  qed
next
  case (9 E n a op b s)
  show ?case
  proof (intro allI impI)
    fix s2 k assume r: "related m t1 t2 k s s2"
    have a: "sim_res m t1 t2 k (eval E n a s) (eval E n a s2)"
      using 9(1) r by blast
    show "sim_res m t1 t2 k (eval E n (Binary a op b) s) (eval E n (Binary a op b) s2)"
      unfolding eval.simps
    proof (rule sim_res_bind [OF a])
      fix va s1' s2'
      assume e: "eval E n a s = Inr (va, s1')" and r': "related m t1 t2 k s1' s2'"
      have b: "sim_res m t1 t2 k (eval E n b s1') (eval E n b s2')"
        using 9(2) [OF e refl] r' by blast
      show "sim_res m t1 t2 k
          (case eval E n b s1' of Inl x \<Rightarrow> Inl x
           | Inr (vb, s2) \<Rightarrow>
               if op = ''call'' then run E n vb (Some va) s2
               else if op = ''then''
                 then case va of
                        VIf c \<Rightarrow>
                          (case branch c vb of Inl x \<Rightarrow> Inl x
                           | Inr None \<Rightarrow> Inr (VNil, s2)
                           | Inr (Some code) \<Rightarrow> run E n code None s2)
                      | _ \<Rightarrow> Inl (Type_Error op)
                 else case binary_op op va vb of Inl x \<Rightarrow> Inl x | Inr r \<Rightarrow> Inr (r, s2))
          (case eval E n b s2' of Inl x \<Rightarrow> Inl x
           | Inr (vb, s2) \<Rightarrow>
               if op = ''call'' then run E n vb (Some va) s2
               else if op = ''then''
                 then case va of
                        VIf c \<Rightarrow>
                          (case branch c vb of Inl x \<Rightarrow> Inl x
                           | Inr None \<Rightarrow> Inr (VNil, s2)
                           | Inr (Some code) \<Rightarrow> run E n code None s2)
                      | _ \<Rightarrow> Inl (Type_Error op)
                 else case binary_op op va vb of Inl x \<Rightarrow> Inl x | Inr r \<Rightarrow> Inr (r, s2))"
      proof (rule sim_res_bind [OF b])
        fix vb t1' t2'
        assume e2: "eval E n b s1' = Inr (vb, t1')" and r'': "related m t1 t2 k t1' t2'"
        consider "op = ''call''" | "op \<noteq> ''call''" "op = ''then''"
          | "op \<noteq> ''call''" "op \<noteq> ''then''"
          by blast
        then show "sim_res m t1 t2 k
            (if op = ''call'' then run E n vb (Some va) t1'
             else if op = ''then''
               then case va of
                      VIf c \<Rightarrow>
                        (case branch c vb of Inl x \<Rightarrow> Inl x
                         | Inr None \<Rightarrow> Inr (VNil, t1')
                         | Inr (Some code) \<Rightarrow> run E n code None t1')
                    | _ \<Rightarrow> Inl (Type_Error op)
               else case binary_op op va vb of Inl x \<Rightarrow> Inl x | Inr r \<Rightarrow> Inr (r, t1'))
            (if op = ''call'' then run E n vb (Some va) t2'
             else if op = ''then''
               then case va of
                      VIf c \<Rightarrow>
                        (case branch c vb of Inl x \<Rightarrow> Inl x
                         | Inr None \<Rightarrow> Inr (VNil, t2')
                         | Inr (Some code) \<Rightarrow> run E n code None t2')
                    | _ \<Rightarrow> Inl (Type_Error op)
               else case binary_op op va vb of Inl x \<Rightarrow> Inl x | Inr r \<Rightarrow> Inr (r, t2'))"
        proof cases
          case 1
          then show ?thesis using 9(3) [OF e refl e2 refl 1] r'' by simp
        next
          case 2
          show ?thesis
          proof (cases va)
            case (VIf c)
            show ?thesis
            proof (cases "branch c vb")
              case (Inl x)
              then show ?thesis using 2 VIf by (simp add: sim_res_error)
            next
              case (Inr ob)
              show ?thesis
              proof (cases ob)
                case None
                then show ?thesis using 2 VIf Inr r'' by (simp add: sim_res_same)
              next
                case (Some code)
                have "sim_res m t1 t2 k (run E n code None t1') (run E n code None t2')"
                  using 9(4) [OF e refl e2 refl 2(1) 2(2) VIf Inr Some] r'' by blast
                then show ?thesis using 2 VIf Inr Some by simp
              qed
            qed
          qed (use 2 in \<open>simp_all add: sim_res_error\<close>)
        next
          case 3
          then show ?thesis using sim_res_pure [OF r'', of "binary_op op va vb"] by simp
        qed
      qed
    qed
  qed
next
  case (10 E n s)
  then show ?case by (simp add: sim_res_same)
next
  case (11 E n e es s)
  show ?case
  proof (intro allI impI)
    fix s2 k assume r: "related m t1 t2 k s s2"
    have a: "sim_res m t1 t2 k (eval E n e s) (eval E n e s2)"
      using 11(1) r by blast
    show "sim_res m t1 t2 k (eval_list E n (e # es) s) (eval_list E n (e # es) s2)"
      unfolding eval_list.simps
    proof (rule sim_res_bind [OF a])
      fix v s1' s2'
      assume e: "eval E n e s = Inr (v, s1')" and r': "related m t1 t2 k s1' s2'"
      have b: "sim_res m t1 t2 k (eval_list E n es s1') (eval_list E n es s2')"
        using 11(2) [OF e refl] r' by blast
      show "sim_res m t1 t2 k
          (case eval_list E n es s1' of Inl x \<Rightarrow> Inl x | Inr (vs, s2) \<Rightarrow> Inr (v # vs, s2))
          (case eval_list E n es s2' of Inl x \<Rightarrow> Inl x | Inr (vs, s2) \<Rightarrow> Inr (v # vs, s2))"
        by (rule sim_res_bind [OF b]) (simp add: sim_res_same)
    qed
  qed
next
  case (12 E n acc s)
  then show ?case by (simp add: sim_res_same)
next
  case (13 E n e rest acc s)
  show ?case
  proof (intro allI impI)
    fix s2 k assume r: "related m t1 t2 k s s2"
    have a: "sim_res m t1 t2 k (eval E n e s) (eval E n e s2)"
      using 13(1) r by blast
    show "sim_res m t1 t2 k (exec E n (Eval e # rest) acc s)
        (exec E n (Eval e # rest) acc s2)"
      unfolding exec.simps
      by (rule sim_res_bind [OF a]) (use 13(2) in blast)
  qed
next
  case (14 E n x e rest acc s)
  show ?case
  proof (intro allI impI)
    fix s2 k assume r: "related m t1 t2 k s s2"
    have a: "sim_res m t1 t2 k (eval E n e s) (eval E n e s2)"
      using 14(1) r by blast
    show "sim_res m t1 t2 k (exec E n (Assign x e # rest) acc s)
        (exec E n (Assign x e # rest) acc s2)"
      unfolding exec.simps
    proof (rule sim_res_bind [OF a])
      fix v s1' s2'
      assume e: "eval E n e s = Inr (v, s1')" and r': "related m t1 t2 k s1' s2'"
      show "sim_res m t1 t2 k (exec E n rest VNil (set_var x v s1'))
          (exec E n rest VNil (set_var x v s2'))"
        using 14(2) [OF e refl] related_set_var [OF r', of x v] by blast
    qed
  qed
next
  case (15 E n rest acc s)
  then show ?case by simp
next
  case (16 E c arg s)
  then show ?case by (simp add: sim_res_error)
next
  case (17 E n c arg s)
  show ?case
  proof (intro allI impI)
    fix s2 k assume r: "related m t1 t2 k s s2"
    show "sim_res m t1 t2 k (run E (Suc n) c arg s) (run E (Suc n) c arg s2)"
    proof (cases c)
      case (VCode body)
      have "sim_res m t1 t2 (Suc k)
          (exec E n body VNil (push_frame arg s)) (exec E n body VNil (push_frame arg s2))"
        using 17 [OF VCode] related_push [OF r] by blast
      from sim_res_popped [OF this] show ?thesis
        by (simp add: VCode)
    next
      case (VLib l)
      then show ?thesis using sim_res_library [OF r] by simp
    qed (simp_all add: sim_res_error)
  qed
qed




lemma paste_operand:
  assumes "\<And>a op' b. M \<noteq> Binary a op' b"
  shows "paste_unary op M = Unary op M" and "paste_right L op M = Binary L op M"
  using assms by (cases M; simp)+

lemma WARNING_exec:
  assumes "def_DEBUG_MODE_NORMAL e \<longrightarrow> globals s ''CBA_fnc_log'' = VLib CBA_fnc_log"
  shows "exec E (Suc k) (statement (WARNING e p (StrS msg)) @ rest) acc s =
           exec E (Suc k) rest (if def_DEBUG_MODE_NORMAL e then VNil else acc)
             (s\<lparr>rpt := warning_entries e p msg @ rpt s\<rparr>)"
proof (cases "def_DEBUG_MODE_NORMAL e")
  case True
  have lib: "nular ''CBA_fnc_log'' s = VLib CBA_fnc_log"
    using assms True by (simp add: nular_def get_var_def is_local_def)
  show ?thesis
    using True lib
    by (simp add: statement_def WARNING_def warning_entries_def THIS_FILE_eval LINE_macro_def
        binary_op_def library_call_def)
next
  case False
  then show ?thesis by (simp add: statement_def WARNING_def warning_entries_def)
qed

lemma forward_this_eval:
  assumes "call_arg_ok arg s"
    and "eval E k T (push_frame None (push_frame arg s))
           = Inr (vnew, push_frame None (push_frame arg s))"
    and "\<And>a op' b. T \<noteq> Binary a op' b"
  shows "eval E (Suc k) (forward_this T) (push_frame arg s) =
           (case run E k vnew (passed_on arg) (push_frame None (push_frame arg s)) of
              Inl x \<Rightarrow> Inl x
            | Inr (r, t) \<Rightarrow> Inr (r, pop_frame t))"
proof (cases "passed_on arg")
  case None
  then have "get_var ''_this'' (push_frame arg s) = VNil"
    using assms(1)
    by (auto simp: passed_on_def call_arg_ok_def get_var_def push_frame_def is_local_def
        split: option.splits if_splits)
  then show ?thesis
    using assms(2) None
    by (simp add: forward_this_def paste_operand [OF assms(3)] unary_op_def binary_op_def
        branch_def split: sum.splits prod.splits)
next
  case (Some x)
  then have arg: "arg = Some x" and x: "x \<noteq> VNil"
    by (auto simp: passed_on_def split: option.splits if_splits)
  have 1: "get_var ''_this'' (push_frame arg s) = x"
    by (simp add: arg get_var_def push_frame_def is_local_def)
  have 2: "nular ''_this'' (push_frame None (push_frame arg s)) = x"
    by (simp add: arg nular_def get_var_def push_frame_def is_local_def)
  show ?thesis
    using assms(2) Some x 1 2
    by (simp add: forward_this_def paste_operand [OF assms(3)] unary_op_def binary_op_def
        branch_def split: sum.splits prod.splits)
qed

lemma push_frame_arg_frame: "push_frame arg s = s\<lparr>frames := arg_frame arg # frames s\<rparr>"
  by (simp add: push_frame_def arg_frame_def)

lemma merge_shim: "merge [arg_frame (passed_on arg), Map.empty, arg_frame arg] = arg_frame arg"
  by (auto simp: arg_frame_def passed_on_def split: option.splits)

lemma passed_on_value:
  "(case passed_on arg of None \<Rightarrow> VNil | Some v \<Rightarrow> v) = (case arg of None \<Rightarrow> VNil | Some v \<Rightarrow> v)"
  by (auto simp: passed_on_def split: option.splits)

lemma run_under_shim:
  assumes f: "frames s1 = Map.empty # arg_frame arg # frames s2"
    and g: "globals s1 = globals s2"
    and r: "rpt s1 = W @ rpt s2"
  shows "case run E k c arg s2 of
           Inl x \<Rightarrow> run E k c (passed_on arg) s1 = Inl x
         | Inr (v, t2) \<Rightarrow>
             (\<exists>t1 l F1 F2. run E k c (passed_on arg) s1 = Inr (v, t1)
                \<and> globals t1 = globals t2 \<and> frames t1 = F1 # F2 # frames t2
                \<and> rpt t1 = l @ W @ rpt s2 \<and> rpt t2 = l @ rpt s2)"
proof (cases k)
  case 0
  then show ?thesis by simp
next
  case (Suc k')
  show ?thesis
  proof (cases c)
    case (VCode b)
    let ?u1 = "push_frame (passed_on arg) s1"
    let ?u2 = "push_frame arg s2"
    let ?block = "[arg_frame (passed_on arg), Map.empty, arg_frame arg]"
    have "frames ?u1 = [] @ ?block @ frames s2" "frames ?u2 = [] @ merge ?block # frames s2"
      using f by (simp_all add: push_frame_arg_frame merge_shim del: merge.simps)
    then have rel: "related 3 (W @ rpt s2) (rpt s2) 0 ?u1 ?u2"
      using g r unfolding related_def
      by (intro conjI exI [of _ "[]"] exI [of _ ?block] exI [of _ "frames s2"])
        (simp_all add: push_frame_def)
    have sim: "sim_res 3 (W @ rpt s2) (rpt s2) 0 (exec E k' b VNil ?u1) (exec E k' b VNil ?u2)"
      using simulation(3) [of 3 "W @ rpt s2" "rpt s2" ?u1 E k' b VNil] rel by blast
    show ?thesis
    proof (cases "exec E k' b VNil ?u1")
      case (Inl x)
      then have "exec E k' b VNil ?u2 = Inl x"
        using sim by (simp add: sim_res_def)
      then show ?thesis using Inl by (simp add: Suc VCode)
    next
      case (Inr a)
      obtain v w1 where a: "a = (v, w1)" by (cases a)
      from sim Inr a obtain w2 where
        u: "exec E k' b VNil ?u2 = Inr (v, w2)" "related 3 (W @ rpt s2) (rpt s2) 0 w1 w2"
        by (auto simp: sim_res_def)
      from u(2) obtain block post l where
        fr: "frames w1 = block @ post" "frames w2 = merge block # post" "length block = 3"
        and gl: "globals w1 = globals w2"
        and lg: "rpt w1 = l @ W @ rpt s2" "rpt w2 = l @ rpt s2"
        by (auto simp: related_def)
      from fr(3) obtain G F1 F2 where b: "block = [G, F1, F2]"
        by (auto simp: length_Suc_conv numeral_3_eq_3)
      show ?thesis
        using Inr a u(1) fr gl lg b
        by (simp add: Suc VCode pop_frame_def)
    qed
  next
    case (VLib lf)
    show ?thesis
      using f g r
      by (simp add: Suc VLib library_call_def passed_on_value)
  qed (simp_all add: Suc)
qed

lemma shim_run:
  assumes ok: "call_arg_ok arg s"
    and lg: "def_DEBUG_MODE_NORMAL e \<longrightarrow> globals s ''CBA_fnc_log'' = VLib CBA_fnc_log"
    and T: "\<And>st. globals st = globals s \<Longrightarrow> eval E k T st = Inr (vnew, st)"
    and nb: "\<And>a op' b. T \<noteq> Binary a op' b"
  shows "same_but_log (warning_entries e p msg) (rpt s)
           (run E (Suc (Suc k))
              (VCode (statement (WARNING e p (StrS msg)) @ [Eval (forward_this T), Empty]))
              arg s)
           (run E k vnew arg s)"
proof -
  let ?W = "warning_entries e p msg"
  let ?sw = "s\<lparr>rpt := ?W @ rpt s\<rparr>"
  let ?s3 = "push_frame None (push_frame arg ?sw)"
  have ok': "call_arg_ok arg ?sw"
    using ok by (simp add: call_arg_ok_def get_var_def is_local_def split: option.splits)
  have T3: "eval E k T ?s3 = Inr (vnew, ?s3)"
    by (rule T) (simp add: push_frame_def)
  have lg': "def_DEBUG_MODE_NORMAL e \<longrightarrow>
      globals (push_frame arg s) ''CBA_fnc_log'' = VLib CBA_fnc_log"
    using lg by (simp add: push_frame_def)
  have sw: "(push_frame arg s)\<lparr>rpt := ?W @ rpt (push_frame arg s)\<rparr> = push_frame arg ?sw"
    by (simp add: push_frame_def)
  have body: "exec E (Suc k)
        (statement (WARNING e p (StrS msg)) @ [Eval (forward_this T), Empty]) VNil
        (push_frame arg s) =
      (case run E k vnew (passed_on arg) ?s3 of
         Inl x \<Rightarrow> Inl x | Inr (r, t) \<Rightarrow> Inr (r, pop_frame t))"
    unfolding WARNING_exec [OF lg'] sw
    by (simp add: forward_this_eval [OF ok' T3 nb] del: run.simps
        split: sum.splits prod.splits)
  have old: "run E (Suc (Suc k))
        (VCode (statement (WARNING e p (StrS msg)) @ [Eval (forward_this T), Empty])) arg s
      = (case run E k vnew (passed_on arg) ?s3 of
           Inl x \<Rightarrow> Inl x
         | Inr (r, t) \<Rightarrow> Inr (r, pop_frame (pop_frame t)))"
    by (simp add: body del: run.simps(2) split: sum.splits prod.splits)
      (simp add: body split: sum.splits prod.splits)
  have f3: "frames ?s3 = Map.empty # arg_frame arg # frames s"
    by (simp add: push_frame_arg_frame arg_frame_def)
  note under = run_under_shim [of ?s3 arg s ?W E k vnew, OF f3]
  show ?thesis
  proof (cases "run E k vnew arg s")
    case (Inl x)
    then have "run E k vnew (passed_on arg) ?s3 = Inl x"
      using under by (simp add: push_frame_def)
    then show ?thesis
      unfolding same_but_log_def old by (simp add: Inl)
  next
    case (Inr a)
    obtain v t2 where a: "a = (v, t2)" by (cases a)
    from under Inr a obtain t1 l F1 F2 where
      t: "run E k vnew (passed_on arg) ?s3 = Inr (v, t1)" "globals t1 = globals t2"
         "frames t1 = F1 # F2 # frames t2"
         "rpt t1 = l @ ?W @ rpt s" "rpt t2 = l @ rpt s"
      by (auto simp: push_frame_def)
    show ?thesis
      unfolding same_but_log_def Inr a old t(1)
      using t(2-5) by (simp add: pop_frame_def)
  qed
qed

lemma eval_global_name:
  assumes "\<not> is_local NEW" and "NEW \<notin> {''nil'', ''true'', ''false''}"
    and "globals st = globals s"
  shows "eval E k (Ident NEW) st = Inr (globals s NEW, st)"
  using assms by (simp add: nular_def get_var_def)

text \<open>
  C6, as the header has it. \<^verbatim>\<open>DEPRECATE_SYS(OLD,NEW)\<close> and
  \<^verbatim>\<open>OBSOLETE_SYS(OLD,CODE)\<close> terminate and leave a code block in \<open>OLD\<close>. Take any
  later state in which the library's logging function is loaded (where it is needed), a
  global function name \<open>NEW\<close> or a code block \<open>CODE\<close>, and a call that passes an
  argument, or no argument where \<^verbatim>\<open>_this\<close> is nil. Calling that block with
  two more units of call depth gives what calling \<open>NEW\<close> (or \<open>CODE\<close>) gives in the same
  state: the same error, or the same value and the same variables and scopes; in
  particular it returns whenever the new function does. The log of the old function has
  the entry of the \<^verbatim>\<open>WARNING\<close> in addition when \<^verbatim>\<open>DEBUG_MODE_NORMAL\<close> is defined,
  and nothing in addition when it is not. \<^verbatim>\<open>DEPRECATE(o,n)\<close> is
  \<^verbatim>\<open>DEPRECATE_SYS\<close> on the two names with the prefix and an underscore in front.
\<close>

theorem deprecation_shims_forward:
  assumes "call_arg_ok arg s"
    and "def_DEBUG_MODE_NORMAL e \<longrightarrow> globals s ''CBA_fnc_log'' = VLib CBA_fnc_log"
    and "\<not> is_local NEW" and "NEW \<notin> {''nil'', ''true'', ''false''}"
  shows "(\<exists>body. DEPRECATE_SYS e p OLD NEW = [Assign OLD (Block body)]
            \<and> exec E n (DEPRECATE_SYS e p OLD NEW) acc s0
                = Inr (VNil, set_var OLD (VCode body) s0)
            \<and> get_var OLD (set_var OLD (VCode body) s0) = VCode body
            \<and> same_but_log (warning_entries e p (deprecate_message e OLD NEW)) (rpt s)
                 (run E (Suc (Suc k)) (VCode body) arg s)
                 (run E k (globals s NEW) arg s))
       \<and> (\<exists>body. OBSOLETE_SYS e p OLD (Block b) = [Assign OLD (Block body)]
            \<and> exec E n (OBSOLETE_SYS e p OLD (Block b)) acc s0
                = Inr (VNil, set_var OLD (VCode body) s0)
            \<and> get_var OLD (set_var OLD (VCode body) s0) = VCode body
            \<and> same_but_log (warning_entries e p (obsolete_message e OLD)) (rpt s)
                 (run E (Suc (Suc k)) (VCode body) arg s)
                 (run E k (VCode b) arg s))
       \<and> DEPRECATE e p old new
            = DEPRECATE_SYS e p (PREFIX e @ ''_'' @ old) (PREFIX e @ ''_'' @ new)
       \<and> length (warning_entries e p m) = (if def_DEBUG_MODE_NORMAL e then 1 else 0)"
proof -
  let ?d = "statement (WARNING e p (StrS (deprecate_message e OLD NEW)))
              @ [Eval (forward_this (Ident NEW)), Empty]"
  let ?o = "statement (WARNING e p (StrS (obsolete_message e OLD)))
              @ [Eval (forward_this (Block b)), Empty]"
  have d1: "DEPRECATE_SYS e p OLD NEW = [Assign OLD (Block ?d)]"
    by (simp add: DEPRECATE_SYS_def deprecate_message_def)
  have o1: "OBSOLETE_SYS e p OLD (Block b) = [Assign OLD (Block ?o)]"
    by (simp add: OBSOLETE_SYS_def obsolete_message_def)
  have d2: "exec E n [Assign OLD (Block ?d)] acc s0 = Inr (VNil, set_var OLD (VCode ?d) s0)"
    by simp
  have o2: "exec E n [Assign OLD (Block ?o)] acc s0 = Inr (VNil, set_var OLD (VCode ?o) s0)"
    by simp
  have d3: "same_but_log (warning_entries e p (deprecate_message e OLD NEW)) (rpt s)
      (run E (Suc (Suc k)) (VCode ?d) arg s) (run E k (globals s NEW) arg s)"
  proof (rule shim_run [OF assms(1,2)])
    show "\<And>st. globals st = globals s \<Longrightarrow> eval E k (Ident NEW) st = Inr (globals s NEW, st)"
      by (rule eval_global_name [OF assms(3,4)])
  qed simp
  have o3: "same_but_log (warning_entries e p (obsolete_message e OLD)) (rpt s)
      (run E (Suc (Suc k)) (VCode ?o) arg s) (run E k (VCode b) arg s)"
    by (rule shim_run [OF assms(1,2)]) simp_all
  have dd: "DEPRECATE e p old new
      = DEPRECATE_SYS e p (PREFIX e @ ''_'' @ old) (PREFIX e @ ''_'' @ new)"
    by (simp add: DEPRECATE_def DOUBLES_def)
  have w: "length (warning_entries e p m) = (if def_DEBUG_MODE_NORMAL e then 1 else 0)"
    by (simp add: warning_entries_def)
  show ?thesis
    using d1 d2 d3 o1 o2 o3 dd w get_set_same by metis
qed

theorem deprecation_shims_forward_witness:
  "call_arg_ok (Some (VScalar 1)) fish_state
   \<and> def_DEBUG_MODE_NORMAL (include_header demo_table)
   \<and> globals fish_state ''CBA_fnc_log'' = VLib CBA_fnc_log
   \<and> \<not> is_local ''CBA_fnc_fish''
   \<and> run plain_engine (Suc 0) (globals fish_state ''CBA_fnc_fish'') (Some (VScalar 1)) fish_state
       = Inr (VScalar 1, fish_state)
   \<and> (\<exists>body. DEPRECATE_SYS (include_header demo_table) demo_site ''CBA_fnc_frog'' ''CBA_fnc_fish''
               = [Assign ''CBA_fnc_frog'' (Block body)]
          \<and> same_but_log
               (warning_entries (include_header demo_table) demo_site
                  (deprecate_message (include_header demo_table) ''CBA_fnc_frog''
                     ''CBA_fnc_fish''))
               (rpt fish_state)
               (run plain_engine (Suc (Suc (Suc 0))) (VCode body) (Some (VScalar 1)) fish_state)
               (Inr (VScalar 1, fish_state)))"
proof -
  have a: "call_arg_ok (Some (VScalar 1)) fish_state"
    by (simp add: call_arg_ok_def)
  have m: "def_DEBUG_MODE_NORMAL (include_header demo_table)"
    by (simp add: include_header_modes demo_table_def)
  have l: "globals fish_state ''CBA_fnc_log'' = VLib CBA_fnc_log"
    by (simp add: fish_state_def)
  have n: "\<not> is_local ''CBA_fnc_fish''" "''CBA_fnc_fish'' \<notin> {''nil'', ''true'', ''false''}"
    by (simp_all add: is_local_def)
  have r: "run plain_engine (Suc 0) (globals fish_state ''CBA_fnc_fish'') (Some (VScalar 1))
      fish_state = Inr (VScalar 1, fish_state)"
    by (simp add: fish_state_def nular_def get_var_def is_local_def push_frame_def
        pop_frame_def)
  from deprecation_shims_forward [OF a _ n, of "include_header demo_table" demo_site
      "''CBA_fnc_frog''" plain_engine 0 VNil fish_state "Suc 0"] l
  show ?thesis
    using a m l n(1) r by (simp only: r) blast
qed

text \<open>
  The claim as written has every call of the old function add one \<^verbatim>\<open>WARNING\<close> entry
  to the log. Under a table that defines \<^verbatim>\<open>DEBUG_MODE_MINIMAL\<close> only, the header
  leaves \<^verbatim>\<open>DEBUG_MODE_NORMAL\<close> undefined and \<^verbatim>\<open>WARNING\<close> expands to nothing,
  so that the code of the old function is an empty statement, the forwarding statement and
  the empty statement behind its semicolon: after
  \<^verbatim>\<open>DEPRECATE_SYS(CBA_fnc_frog,CBA_fnc_fish)\<close>, the call
  \<^verbatim>\<open>1 call CBA_fnc_frog\<close> returns 1 and leaves the state, log included, as it was.
\<close>

theorem deprecation_silent_counterexample:
  "exec plain_engine 0
     (DEPRECATE_SYS (include_header minimal_table) demo_site ''CBA_fnc_frog'' ''CBA_fnc_fish'')
     VNil fish_state
     = Inr (VNil,
            set_var ''CBA_fnc_frog''
              (VCode [Empty, Eval (forward_this (Ident ''CBA_fnc_fish'')), Empty]) fish_state)
   \<and> eval plain_engine (Suc (Suc (Suc 0))) (Binary (Num 1) ''call'' (Ident ''CBA_fnc_frog''))
       (set_var ''CBA_fnc_frog''
          (VCode [Empty, Eval (forward_this (Ident ''CBA_fnc_fish'')), Empty]) fish_state)
     = Inr (VScalar 1,
            set_var ''CBA_fnc_frog''
              (VCode [Empty, Eval (forward_this (Ident ''CBA_fnc_fish'')), Empty]) fish_state)
   \<and> rpt (set_var ''CBA_fnc_frog''
            (VCode [Empty, Eval (forward_this (Ident ''CBA_fnc_fish'')), Empty]) fish_state) = []"
  by (simp add: DEPRECATE_SYS_def statement_def WARNING_def include_header_modes minimal_table_def
      demo_table_def forward_this_def fish_state_def set_var_def is_local_def nular_def
      get_var_def unary_op_def binary_op_def branch_def push_frame_def pop_frame_def)

end
